theory Spec2Isabelle
  imports Complex_Main
begin

section \<open>Single-precision values\<close>

text \<open>
  The device code computes on \<^verbatim>\<open>float\<close>. The model keeps the special values of
  IEEE 754 (the two infinities and NaN, which division by zero produces) and takes every
  finite operation exactly, on the reals: rounding, overflow to infinity and the sign of
  zero are not represented (a zero is a positive zero).
\<close>

datatype float = Fin real | PInf | NInf | NaN

fun is_fin :: "float \<Rightarrow> bool" where
  "is_fin (Fin a) = True"
| "is_fin PInf = False"
| "is_fin NInf = False"
| "is_fin NaN = False"

fun fneg :: "float \<Rightarrow> float" where
  "fneg (Fin a) = Fin (- a)"
| "fneg PInf = NInf"
| "fneg NInf = PInf"
| "fneg NaN = NaN"

fun fadd :: "float \<Rightarrow> float \<Rightarrow> float" where
  "fadd (Fin a) (Fin b) = Fin (a + b)"
| "fadd (Fin a) PInf = PInf"
| "fadd (Fin a) NInf = NInf"
| "fadd (Fin a) NaN = NaN"
| "fadd PInf (Fin b) = PInf"
| "fadd PInf PInf = PInf"
| "fadd PInf NInf = NaN"
| "fadd PInf NaN = NaN"
| "fadd NInf (Fin b) = NInf"
| "fadd NInf PInf = NaN"
| "fadd NInf NInf = NInf"
| "fadd NInf NaN = NaN"
| "fadd NaN b = NaN"

definition fsub :: "float \<Rightarrow> float \<Rightarrow> float" where
  "fsub a b = fadd a (fneg b)"

fun fmul :: "float \<Rightarrow> float \<Rightarrow> float" where
  "fmul (Fin a) (Fin b) = Fin (a * b)"
| "fmul (Fin a) PInf = (if a = 0 then NaN else if 0 < a then PInf else NInf)"
| "fmul (Fin a) NInf = (if a = 0 then NaN else if 0 < a then NInf else PInf)"
| "fmul (Fin a) NaN = NaN"
| "fmul PInf (Fin b) = (if b = 0 then NaN else if 0 < b then PInf else NInf)"
| "fmul PInf PInf = PInf"
| "fmul PInf NInf = NInf"
| "fmul PInf NaN = NaN"
| "fmul NInf (Fin b) = (if b = 0 then NaN else if 0 < b then NInf else PInf)"
| "fmul NInf PInf = NInf"
| "fmul NInf NInf = PInf"
| "fmul NInf NaN = NaN"
| "fmul NaN b = NaN"

text \<open>Division by a zero is not an error in the source: it gives an infinity, or NaN for 0/0.\<close>

fun fdiv :: "float \<Rightarrow> float \<Rightarrow> float" where
  "fdiv (Fin a) (Fin b) =
     (if b = 0 then (if a = 0 then NaN else if 0 < a then PInf else NInf) else Fin (a / b))"
| "fdiv (Fin a) PInf = Fin 0"
| "fdiv (Fin a) NInf = Fin 0"
| "fdiv (Fin a) NaN = NaN"
| "fdiv PInf (Fin b) = (if 0 \<le> b then PInf else NInf)"
| "fdiv PInf PInf = NaN"
| "fdiv PInf NInf = NaN"
| "fdiv PInf NaN = NaN"
| "fdiv NInf (Fin b) = (if 0 \<le> b then NInf else PInf)"
| "fdiv NInf PInf = NaN"
| "fdiv NInf NInf = NaN"
| "fdiv NInf NaN = NaN"
| "fdiv NaN b = NaN"

text \<open>The comparisons \<^verbatim>\<open><\<close>, \<^verbatim>\<open>>\<close> and \<^verbatim>\<open>==\<close>: false as soon as an operand is NaN.\<close>

fun flt :: "float \<Rightarrow> float \<Rightarrow> bool" where
  "flt (Fin a) (Fin b) = (a < b)"
| "flt (Fin a) PInf = True"
| "flt NInf (Fin b) = True"
| "flt NInf PInf = True"
| "flt a b = False"

definition fgt :: "float \<Rightarrow> float \<Rightarrow> bool" where
  "fgt a b = flt b a"

fun feq :: "float \<Rightarrow> float \<Rightarrow> bool" where
  "feq (Fin a) (Fin b) = (a = b)"
| "feq PInf PInf = True"
| "feq NInf NInf = True"
| "feq a b = False"

text \<open>\<^verbatim>\<open>fmaxf\<close> and \<^verbatim>\<open>fminf\<close> return the other operand when one is NaN.\<close>

definition fmaxf :: "float \<Rightarrow> float \<Rightarrow> float" where
  "fmaxf a b = (if a = NaN then b else if b = NaN then a else if flt a b then b else a)"

definition fminf :: "float \<Rightarrow> float \<Rightarrow> float" where
  "fminf a b = (if a = NaN then b else if b = NaN then a else if flt b a then b else a)"

fun fabs :: "float \<Rightarrow> float" where
  "fabs (Fin a) = Fin \<bar>a\<bar>"
| "fabs PInf = PInf"
| "fabs NInf = PInf"
| "fabs NaN = NaN"

fun fsqrt :: "float \<Rightarrow> float" where
  "fsqrt (Fin a) = (if a < 0 then NaN else Fin (sqrt a))"
| "fsqrt PInf = PInf"
| "fsqrt NInf = NaN"
| "fsqrt NaN = NaN"

text \<open>
  \<^verbatim>\<open>powf(x, y)\<close> for a finite exponent \<open>y\<close> (the source only raises to the constants
  \<open>-0.2\<close> and \<open>-0.25\<close>): a zero base with a negative exponent is a pole, an
  infinite base with a negative exponent gives zero, a negative base with a fractional
  exponent gives NaN.
\<close>

fun powf :: "float \<Rightarrow> real \<Rightarrow> float" where
  "powf (Fin a) y =
     (if y = 0 then Fin 1
      else if 0 < a then Fin (a powr y)
      else if a = 0 then (if y < 0 then PInf else Fin 0)
      else if of_int \<lfloor>y\<rfloor> = y then Fin (a powi \<lfloor>y\<rfloor>) else NaN)"
| "powf PInf y = (if y = 0 then Fin 1 else if y < 0 then Fin 0 else PInf)"
| "powf NInf y =
     (if y = 0 then Fin 1 else if y < 0 then Fin 0
      else if of_int \<lfloor>y\<rfloor> = y \<and> odd \<lfloor>y\<rfloor> then NInf else PInf)"
| "powf NaN y = (if y = 0 then Fin 1 else NaN)"

definition FLT_MAX :: float where
  "FLT_MAX = Fin 340282346638528859811704183484516925440"

subsection \<open>Conversions between \<^verbatim>\<open>float\<close>, \<^verbatim>\<open>int\<close> and \<^verbatim>\<open>short\<close>\<close>

text \<open>
  Labels and termination codes travel as floats and are held in \<^verbatim>\<open>short\<close> variables
  inside the kernel. A device conversion from float rounds towards zero and saturates
  (NaN becomes 0); the conversion from \<^verbatim>\<open>int\<close> to \<^verbatim>\<open>short\<close> keeps the low 16 bits.
\<close>

definition float_trunc :: "real \<Rightarrow> int" where
  "float_trunc x = (if 0 \<le> x then \<lfloor>x\<rfloor> else \<lceil>x\<rceil>)"

fun float_to_int :: "float \<Rightarrow> int" where
  "float_to_int (Fin a) = max (- 2147483648) (min 2147483647 (float_trunc a))"
| "float_to_int PInf = 2147483647"
| "float_to_int NInf = - 2147483648"
| "float_to_int NaN = 0"

fun float_to_short :: "float \<Rightarrow> int" where
  "float_to_short (Fin a) = max (- 32768) (min 32767 (float_trunc a))"
| "float_to_short PInf = 32767"
| "float_to_short NInf = - 32768"
| "float_to_short NaN = 0"

definition int_to_short :: "int \<Rightarrow> int" where
  "int_to_short i = (i + 32768) mod 65536 - 32768"

definition short_to_float :: "int \<Rightarrow> float" where
  "short_to_float i = Fin (of_int i)"

subsection \<open>Two-component vectors\<close>

text \<open>
  Modelled from the spec: the operators on \<^verbatim>\<open>float2\<close> and \<^verbatim>\<open>length\<close> live in
  \<^verbatim>\<open>functions.cuh\<close>, which is not among the sources. The operators work component
  by component, and \<^verbatim>\<open>length\<close> is the Euclidean norm, the distance that the
  specification names for convergence points.
\<close>

type_synonym float2 = "float \<times> float"

definition f2add :: "float2 \<Rightarrow> float2 \<Rightarrow> float2" where
  "f2add a b = (fadd (fst a) (fst b), fadd (snd a) (snd b))"

definition f2sub :: "float2 \<Rightarrow> float2 \<Rightarrow> float2" where
  "f2sub a b = (fsub (fst a) (fst b), fsub (snd a) (snd b))"

definition f2mul :: "float2 \<Rightarrow> float2 \<Rightarrow> float2" where
  "f2mul a b = (fmul (fst a) (fst b), fmul (snd a) (snd b))"

definition f2scale :: "float \<Rightarrow> float2 \<Rightarrow> float2" where
  "f2scale s a = (fmul s (fst a), fmul s (snd a))"

definition f2abs :: "float2 \<Rightarrow> float2" where
  "f2abs a = (fabs (fst a), fabs (snd a))"

definition f2dot :: "float2 \<Rightarrow> float2 \<Rightarrow> float" where
  "f2dot a b = fadd (fmul (fst a) (fst b)) (fmul (snd a) (snd b))"

definition length_f2 :: "float2 \<Rightarrow> float" where
  "length_f2 a = fsqrt (f2dot a a)"

text \<open>
  Modelled from the spec: \<^verbatim>\<open>distance_point_line\<close> lives in \<^verbatim>\<open>functions.cuh\<close>, which is
  not among the sources; the specification calls it the point-to-segment distance. The
  point is projected on the line through the end points, the parameter is clamped to
  the segment, and the distance to the clamped point is returned.
\<close>

definition distance_point_line :: "float2 \<Rightarrow> float2 \<Rightarrow> float2 \<Rightarrow> float" where
  "distance_point_line p p0 p1 =
     (let d = f2sub p1 p0;
          t = fdiv (f2dot (f2sub p p0) d) (f2dot d d);
          tc = fmaxf (Fin 0) (fminf (Fin 1) t)
      in length_f2 (f2sub p (f2add p0 (f2scale tc d))))"

section \<open>The field store as the kernel sees it\<close>

text \<open>
  The constants of \<^verbatim>\<open>const_data[0..6]\<close> under the names the source gives them, the six
  textures, and the compile-time switch \<^verbatim>\<open>__streamlines_cuda_shi_et_al\<close> (set in
  \<^verbatim>\<open>streamlines.cuh\<close>, which is not among the sources, hence a parameter).
  \<^verbatim>\<open>texture_interpolation\<close> is not among the sources either: \<open>velocity\<close> and \<open>rk4_step\<close>
  stand for \<^verbatim>\<open>texture_interpolation<2>(textures[0], .)\<close> and
  \<^verbatim>\<open>texture_interpolation<1>(textures[1], .)\<close> as functions of the texture coordinates.
\<close>

record env =
  domain_offset :: float2
  domain_scale :: float2
  texture_offset :: float2
  texture_scale :: float2
  time_scale :: float2
  max_error :: float2
  cell_size :: float2
  velocity :: "float2 \<Rightarrow> float2"
  rk4_step :: "float2 \<Rightarrow> float"
  convergence_points :: "float2 list"
  point_ids :: "float list"
  convergence_lines :: "float2 list"
  line_ids :: "float list"
  shi_et_al :: bool

text \<open>A linear texture fetch in border mode: zero outside the buffer.\<close>

definition tex1Dfetch :: "float list \<Rightarrow> int \<Rightarrow> float" where
  "tex1Dfetch t k = (if 0 \<le> k \<and> nat k < length t then t ! nat k else Fin 0)"

definition tex1Dfetch2 :: "float2 list \<Rightarrow> int \<Rightarrow> float2" where
  "tex1Dfetch2 t k = (if 0 \<le> k \<and> nat k < length t then t ! nat k else (Fin 0, Fin 0))"

definition pos_to_texcoords :: "env \<Rightarrow> float2 \<Rightarrow> float2" where
  "pos_to_texcoords e pos =
     (let scaled_position = f2mul (f2sub pos (domain_offset e)) (domain_scale e)
      in f2sub (f2mul scaled_position (texture_scale e)) (texture_offset e))"

section \<open>Integrators\<close>

subsection \<open>Fixed-step Runge-Kutta\<close>

definition steps_per_cell :: "env \<Rightarrow> float2 \<Rightarrow> float" where
  "steps_per_cell e pos =
     (let max_velocity = length_f2 (velocity e (pos_to_texcoords e pos));
          min_cellsize = fminf (fst (cell_size e)) (snd (cell_size e))
      in if fgt max_velocity (Fin 0) then fdiv min_cellsize max_velocity else Fin 0)"

definition rk4_k1 :: "env \<Rightarrow> float2 \<Rightarrow> float \<Rightarrow> float \<Rightarrow> float2" where
  "rk4_k1 e pos delta sign =
     f2scale (fmul (fmul (steps_per_cell e pos) delta) sign)
       (velocity e (pos_to_texcoords e pos))"

definition rk4_k2 :: "env \<Rightarrow> float2 \<Rightarrow> float \<Rightarrow> float \<Rightarrow> float2" where
  "rk4_k2 e pos delta sign =
     f2scale (fmul (fmul (steps_per_cell e pos) delta) sign)
       (velocity e (pos_to_texcoords e (f2add pos (f2scale (Fin 0.5) (rk4_k1 e pos delta sign)))))"

definition rk4_k3 :: "env \<Rightarrow> float2 \<Rightarrow> float \<Rightarrow> float \<Rightarrow> float2" where
  "rk4_k3 e pos delta sign =
     f2scale (fmul (fmul (steps_per_cell e pos) delta) sign)
       (velocity e (pos_to_texcoords e (f2add pos (f2scale (Fin 0.5) (rk4_k2 e pos delta sign)))))"

definition rk4_k4 :: "env \<Rightarrow> float2 \<Rightarrow> float \<Rightarrow> float \<Rightarrow> float2" where
  "rk4_k4 e pos delta sign =
     f2scale (fmul (fmul (steps_per_cell e pos) delta) sign)
       (velocity e (pos_to_texcoords e (f2add pos (rk4_k3 e pos delta sign))))"

definition advectRK4 :: "env \<Rightarrow> float2 \<Rightarrow> float \<Rightarrow> float \<Rightarrow> float2" where
  "advectRK4 e pos delta sign =
     (let k1 = rk4_k1 e pos delta sign;
          k2 = rk4_k2 e pos delta sign;
          k3 = rk4_k3 e pos delta sign;
          k4 = rk4_k4 e pos delta sign
      in f2add pos
           (f2scale (fdiv (Fin 1) (Fin 6))
              (f2add (f2add (f2add k1 (f2scale (Fin 2) k2)) (f2scale (Fin 2) k3)) k4)))"

text \<open>
  The world positions whose texture coordinates \<^verbatim>\<open>advectRK4\<close> hands to
  \<^verbatim>\<open>texture_interpolation\<close> on the velocity texture, in the order of the calls in the
  source: the call for \<^verbatim>\<open>max_velocity\<close>, then one call for each coefficient.
\<close>

definition advectRK4_reads :: "env \<Rightarrow> float2 \<Rightarrow> float \<Rightarrow> float \<Rightarrow> float2 list" where
  "advectRK4_reads e pos delta sign =
     [pos,
      pos,
      f2add pos (f2scale (Fin 0.5) (rk4_k1 e pos delta sign)),
      f2add pos (f2scale (Fin 0.5) (rk4_k2 e pos delta sign)),
      f2add pos (rk4_k3 e pos delta sign)]"

subsection \<open>Adaptive Runge-Kutta 4-5 with Cash-Karp parameters\<close>

named_theorems cash_karp \<open>the Cash-Karp parameters and the step-size constants\<close>

definition b_21 :: float where [cash_karp]: "b_21 = Fin (2 / 10)"
definition b_31 :: float where [cash_karp]: "b_31 = Fin (75 / 1000)"
definition b_41 :: float where [cash_karp]: "b_41 = Fin (3 / 10)"
definition b_51 :: float where [cash_karp]: "b_51 = Fin (- 11 / 54)"
definition b_61 :: float where [cash_karp]: "b_61 = Fin (1631 / 55296)"
definition b_32 :: float where [cash_karp]: "b_32 = Fin (225 / 1000)"
definition b_42 :: float where [cash_karp]: "b_42 = Fin (- 9 / 10)"
definition b_52 :: float where [cash_karp]: "b_52 = Fin (25 / 10)"
definition b_62 :: float where [cash_karp]: "b_62 = Fin (175 / 512)"
definition b_43 :: float where [cash_karp]: "b_43 = Fin (12 / 10)"
definition b_53 :: float where [cash_karp]: "b_53 = Fin (- 70 / 27)"
definition b_63 :: float where [cash_karp]: "b_63 = Fin (575 / 13824)"
definition b_54 :: float where [cash_karp]: "b_54 = Fin (35 / 27)"
definition b_64 :: float where [cash_karp]: "b_64 = Fin (44275 / 110592)"
definition b_65 :: float where [cash_karp]: "b_65 = Fin (253 / 4096)"

definition c_1 :: float where [cash_karp]: "c_1 = Fin (37 / 378)"
definition c_2 :: float where [cash_karp]: "c_2 = Fin 0"
definition c_3 :: float where [cash_karp]: "c_3 = Fin (250 / 621)"
definition c_4 :: float where [cash_karp]: "c_4 = Fin (125 / 594)"
definition c_5 :: float where [cash_karp]: "c_5 = Fin 0"
definition c_6 :: float where [cash_karp]: "c_6 = Fin (512 / 1771)"

definition c_1s :: float where [cash_karp]: "c_1s = Fin (2825 / 27648)"
definition c_2s :: float where [cash_karp]: "c_2s = Fin 0"
definition c_3s :: float where [cash_karp]: "c_3s = Fin (18575 / 48384)"
definition c_4s :: float where [cash_karp]: "c_4s = Fin (13525 / 55296)"
definition c_5s :: float where [cash_karp]: "c_5s = Fin (277 / 14336)"
definition c_6s :: float where [cash_karp]: "c_6s = Fin (25 / 100)"

definition grow_exponent :: real where [cash_karp]: "grow_exponent = - 2 / 10"
definition shrink_exponent :: real where [cash_karp]: "shrink_exponent = - 25 / 100"
definition max_growth :: float where [cash_karp]: "max_growth = Fin 5"
definition max_shrink :: float where [cash_karp]: "max_shrink = Fin (1 / 10)"
definition safety :: float where [cash_karp]: "safety = Fin (9 / 10)"

text \<open>The velocity at a world position, scaled by \<^verbatim>\<open>delta * sign\<close>.\<close>

definition rk45_k :: "env \<Rightarrow> float \<Rightarrow> float \<Rightarrow> float2 \<Rightarrow> float2" where
  "rk45_k e delta sign p = f2scale (fmul delta sign) (velocity e (pos_to_texcoords e p))"

text \<open>The six coefficients \<^verbatim>\<open>k1\<close> to \<^verbatim>\<open>k6\<close> of one pass through the loop body.\<close>

definition rk45_coefficients ::
  "env \<Rightarrow> float2 \<Rightarrow> float \<Rightarrow> float \<Rightarrow> float2 \<times> float2 \<times> float2 \<times> float2 \<times> float2 \<times> float2" where
  "rk45_coefficients e pos delta sign =
     (let k1 = rk45_k e delta sign pos;
          k2 = rk45_k e delta sign (f2add pos (f2scale b_21 k1));
          k3 = rk45_k e delta sign (f2add (f2add pos (f2scale b_31 k1)) (f2scale b_32 k2));
          k4 = rk45_k e delta sign
                 (f2add (f2add (f2add pos (f2scale b_41 k1)) (f2scale b_42 k2)) (f2scale b_43 k3));
          k5 = rk45_k e delta sign
                 (f2add (f2add (f2add (f2add pos (f2scale b_51 k1)) (f2scale b_52 k2))
                    (f2scale b_53 k3)) (f2scale b_54 k4));
          k6 = rk45_k e delta sign
                 (f2add (f2add (f2add (f2add (f2add pos (f2scale b_61 k1)) (f2scale b_62 k2))
                    (f2scale b_63 k3)) (f2scale b_64 k4)) (f2scale b_65 k5))
      in (k1, k2, k3, k4, k5, k6))"

definition rk45_fifth_order :: "env \<Rightarrow> float2 \<Rightarrow> float \<Rightarrow> float \<Rightarrow> float2" where
  "rk45_fifth_order e pos delta sign =
     (case rk45_coefficients e pos delta sign of (k1, k2, k3, k4, k5, k6) \<Rightarrow>
        f2add (f2add (f2add (f2add (f2add (f2add pos (f2scale c_1 k1)) (f2scale c_2 k2))
          (f2scale c_3 k3)) (f2scale c_4 k4)) (f2scale c_5 k5)) (f2scale c_6 k6))"

definition rk45_fourth_order :: "env \<Rightarrow> float2 \<Rightarrow> float \<Rightarrow> float \<Rightarrow> float2" where
  "rk45_fourth_order e pos delta sign =
     (case rk45_coefficients e pos delta sign of (k1, k2, k3, k4, k5, k6) \<Rightarrow>
        f2add (f2add (f2add (f2add (f2add (f2add pos (f2scale c_1s k1)) (f2scale c_2s k2))
          (f2scale c_3s k3)) (f2scale c_4s k4)) (f2scale c_5s k5)) (f2scale c_6s k6))"

definition rk45_difference :: "env \<Rightarrow> float2 \<Rightarrow> float \<Rightarrow> float \<Rightarrow> float2" where
  "rk45_difference e pos delta sign =
     f2abs (f2sub (rk45_fifth_order e pos delta sign) (rk45_fourth_order e pos delta sign))"

definition rk45_scale :: "env \<Rightarrow> float2 \<Rightarrow> float2" where
  "rk45_scale e pos = f2abs (velocity e (pos_to_texcoords e pos))"

definition rk45_error :: "env \<Rightarrow> float2 \<Rightarrow> float \<Rightarrow> float \<Rightarrow> float \<Rightarrow> float" where
  "rk45_error e pos delta sign max_err =
     (let difference = rk45_difference e pos delta sign;
          scale = rk45_scale e pos
      in fdiv (fmaxf (Fin 0)
                 (fmaxf (fdiv (fst difference) (fst scale)) (fdiv (snd difference) (snd scale))))
              max_err)"

text \<open>
  The \<^verbatim>\<open>do ... while (decreased)\<close> loop. The source has no bound on the number of
  passes, so the model is a partial function: \<open>None\<close> stands for a loop that never
  leaves. The result is the new position, the time step for the next call (the
  in/out parameter \<^verbatim>\<open>delta\<close>) and the returned pair of used time step and error.
\<close>

partial_function (option) advectRK45 ::
  "env \<Rightarrow> float2 \<Rightarrow> float \<Rightarrow> float \<Rightarrow> float \<Rightarrow> (float2 \<times> float \<times> float2) option" where
  "advectRK45 e pos delta sign max_err =
     (let error = rk45_error e pos delta sign max_err;
          used_delta_and_error = (delta, error)
      in if fgt error (Fin 1)
         then advectRK45 e pos
                (fmul delta (fmaxf max_shrink (fmul safety (powf error shrink_exponent))))
                sign max_err
         else Some (rk45_fifth_order e pos delta sign,
                    fmul delta (fminf max_growth (fmul safety (powf error grow_exponent))),
                    used_delta_and_error))"

section \<open>Labels and distances\<close>

text \<open>
  The four-argument overload. Its first parameter is an \<^verbatim>\<open>int\<close> that the callers fill
  from a \<^verbatim>\<open>float\<close> id; the label it writes is a \<^verbatim>\<open>short\<close>.
\<close>

definition update_label_and_dist1 :: "int \<Rightarrow> float \<Rightarrow> int \<times> float \<Rightarrow> int \<times> float" where
  "update_label_and_dist1 label_conv_structure dist_conv_structure ld =
     (if flt dist_conv_structure (snd ld)
      then (int_to_short label_conv_structure, dist_conv_structure)
      else ld)"

definition update_point :: "env \<Rightarrow> float2 \<Rightarrow> int \<times> float \<Rightarrow> nat \<Rightarrow> int \<times> float" where
  "update_point e pos ld k =
     (let id = tex1Dfetch (point_ids e) (int k);
          p = tex1Dfetch2 (convergence_points e) (int k);
          dist = length_f2 (f2sub pos p)
      in update_label_and_dist1 (float_to_int id) dist ld)"

definition update_line :: "env \<Rightarrow> float2 \<Rightarrow> int \<times> float \<Rightarrow> nat \<Rightarrow> int \<times> float" where
  "update_line e pos ld k =
     (let id = tex1Dfetch (line_ids e) (int k);
          p0 = tex1Dfetch2 (convergence_lines e) (int k * 2 + 0);
          p1 = tex1Dfetch2 (convergence_lines e) (int k * 2 + 1);
          dist = distance_point_line pos p0 p1
      in update_label_and_dist1 (float_to_int id) dist ld)"

text \<open>The five-argument overload: both \<^verbatim>\<open>for\<close> loops, after the reset of the Shi et al. mode.\<close>

definition update_label_and_dist ::
  "env \<Rightarrow> int \<Rightarrow> int \<Rightarrow> float2 \<Rightarrow> int \<times> float \<Rightarrow> int \<times> float" where
  "update_label_and_dist e num_convergence_points num_convergence_lines pos ld =
     (let ld0 = (if shi_et_al e then (- 1, FLT_MAX) else ld);
          ld1 = foldl (update_point e pos) ld0 [0..<nat num_convergence_points]
      in foldl (update_line e pos) ld1 [0..<nat num_convergence_lines])"

section \<open>The streamline kernel\<close>

record thread_state =
  pos :: float2
  step :: float
  label :: int
  dist :: float
  termination_code :: int

datatype loop_exit = is_Break: Break (exit_state: thread_state) | Next (exit_state: thread_state)

text \<open>The advection of one loop pass, by the integration method.\<close>

definition advect :: "env \<Rightarrow> int \<Rightarrow> float \<Rightarrow> float2 \<Rightarrow> float \<Rightarrow> (float2 \<times> float) option" where
  "advect e method sign p st =
     (if method = 0 then Some (advectRK4 e p (fst (time_scale e)) sign, st)
      else if method = 1 then
        (case advectRK45 e p st sign (fst (max_error e)) of
           None \<Rightarrow> None
         | Some (p', st', used) \<Rightarrow> Some (p', st'))
      else Some (p, st))"

text \<open>The distance to the nearest convergence structure, as the stagnation branch computes it.\<close>

definition stagnation_point :: "env \<Rightarrow> float2 \<Rightarrow> float \<Rightarrow> nat \<Rightarrow> float" where
  "stagnation_point e p d k =
     fminf d (length_f2 (f2sub p (tex1Dfetch2 (convergence_points e) (int k))))"

definition stagnation_line :: "env \<Rightarrow> float2 \<Rightarrow> float \<Rightarrow> nat \<Rightarrow> float" where
  "stagnation_line e p d k =
     fminf d (distance_point_line p
                (tex1Dfetch2 (convergence_lines e) (int k * 2 + 0))
                (tex1Dfetch2 (convergence_lines e) (int k * 2 + 1)))"

definition stagnation_dist :: "env \<Rightarrow> int \<Rightarrow> int \<Rightarrow> float2 \<Rightarrow> float" where
  "stagnation_dist e num_convergence_points num_convergence_lines p =
     foldl (stagnation_line e p)
       (foldl (stagnation_point e p) FLT_MAX [0..<nat num_convergence_points])
       [0..<nat num_convergence_lines]"

definition outside_domain :: "env \<Rightarrow> float2 \<Rightarrow> bool" where
  "outside_domain e p =
     (let pos_01 = f2mul (f2sub p (domain_offset e)) (domain_scale e)
      in flt (fst pos_01) (Fin 0) \<or> fgt (fst pos_01) (Fin 1) \<or>
         flt (snd pos_01) (Fin 0) \<or> fgt (snd pos_01) (Fin 1))"

text \<open>One pass through the body of the \<^verbatim>\<open>for\<close> loop over the integration steps.\<close>

definition kernel_step ::
  "env \<Rightarrow> int \<Rightarrow> int \<Rightarrow> float \<Rightarrow> int \<Rightarrow> thread_state \<Rightarrow> loop_exit option" where
  "kernel_step e num_convergence_points num_convergence_lines sign method s =
     (let posPrev = pos s in
      case advect e method sign (pos s) (step s) of
        None \<Rightarrow> None
      | Some (p, st) \<Rightarrow>
          (let ld = (if shi_et_al e then (label s, dist s)
                     else update_label_and_dist e num_convergence_points num_convergence_lines p
                            (label s, dist s));
               s1 = s\<lparr>pos := p, step := st, label := fst ld, dist := snd ld\<rparr>
           in if feq (fst posPrev) (fst p) \<and> feq (snd posPrev) (snd p)
              then (if flt (stagnation_dist e num_convergence_points num_convergence_lines p)
                           (fmul (Fin 0.5) (fminf (fst (cell_size e)) (snd (cell_size e))))
                    then Some (Break (s1\<lparr>termination_code := 3\<rparr>))
                    else Some (Break (s1\<lparr>termination_code := 2\<rparr>)))
              else if outside_domain e p
              then Some (Break (if shi_et_al e
                                then s1\<lparr>termination_code := 1, label := - 1, dist := Fin 0\<rparr>
                                else s1\<lparr>termination_code := 1\<rparr>))
              else Some (Next s1)))"

text \<open>The \<^verbatim>\<open>for\<close> loop, by the number of steps that remain.\<close>

fun integrate ::
  "env \<Rightarrow> int \<Rightarrow> int \<Rightarrow> float \<Rightarrow> int \<Rightarrow> nat \<Rightarrow> thread_state \<Rightarrow> thread_state option" where
  "integrate e ncp ncl sign method 0 s = Some s"
| "integrate e ncp ncl sign method (Suc j) s =
     (case kernel_step e ncp ncl sign method s of
        None \<Rightarrow> None
      | Some (Break s') \<Rightarrow> Some s'
      | Some (Next s') \<Rightarrow> integrate e ncp ncl sign method j s')"

text \<open>
  What one thread does to its particle: position, label, distance and termination
  code, read from and written back to the four buffers as floats.
\<close>

type_synonym particle = "float2 \<times> float \<times> float \<times> float"

definition kernel_particle ::
  "env \<Rightarrow> int \<Rightarrow> int \<Rightarrow> float \<Rightarrow> int \<Rightarrow> int \<Rightarrow> particle \<Rightarrow> particle option" where
  "kernel_particle e num_convergence_points num_convergence_lines sign num_steps method pt =
     (case pt of (p, l, d, t) \<Rightarrow>
        if feq t (Fin 0) then
          (let ld = (if shi_et_al e then (float_to_short l, d)
                     else update_label_and_dist e num_convergence_points num_convergence_lines p
                            (float_to_short l, d));
               s0 = \<lparr>pos = p,
                     step = fmul (fst (time_scale e)) (rk4_step e (pos_to_texcoords e p)),
                     label = fst ld, dist = snd ld, termination_code = float_to_short t\<rparr>
           in case integrate e num_convergence_points num_convergence_lines sign method
                     (nat num_steps) s0 of
                None \<Rightarrow> None
              | Some s \<Rightarrow>
                  (let ld' = (if shi_et_al e
                              then update_label_and_dist e num_convergence_points
                                     num_convergence_lines (pos s) (label s, dist s)
                              else (label s, dist s))
                   in Some (pos s, short_to_float (fst ld'), snd ld',
                            short_to_float (termination_code s))))
        else Some pt)"

text \<open>The device buffers of one batch, and the thread with global index \<open>gid\<close>.\<close>

record buffers =
  particles :: "float2 list"
  labels :: "float list"
  distances :: "float list"
  terminations :: "float list"

definition compute_streamlines_kernel ::
  "env \<Rightarrow> int \<Rightarrow> int \<Rightarrow> float \<Rightarrow> int \<Rightarrow> int \<Rightarrow> int \<Rightarrow> nat \<Rightarrow> buffers \<Rightarrow> buffers option" where
  "compute_streamlines_kernel e num_convergence_points num_convergence_lines sign
       num_particles num_steps method gid b =
     (if int gid < num_particles then
        (case kernel_particle e num_convergence_points num_convergence_lines sign num_steps method
                (particles b ! gid, labels b ! gid, distances b ! gid, terminations b ! gid) of
           None \<Rightarrow> None
         | Some (p, l, d, t) \<Rightarrow>
             Some (b\<lparr>labels := (labels b)[gid := l],
                     distances := (distances b)[gid := d],
                     terminations := (terminations b)[gid := t],
                     particles := (particles b)[gid := p]\<rparr>))
      else Some b)"

section \<open>The host side\<close>

subsection \<open>Device calls and their failures\<close>

text \<open>
  Every call of the CUDA runtime returns a \<^verbatim>\<open>cudaError_t\<close>, zero for success. Whether a
  call fails is up to the device, so the model reads the result codes of the successive
  calls from a list (a list that has run out stands for calls that succeed). A
  \<^verbatim>\<open>throw std::runtime_error\<close> is the left injection of the result.
\<close>

datatype error = runtime_error string nat

definition cuda :: "nat list \<Rightarrow> nat \<times> nat list" where
  "cuda dev = (case dev of [] \<Rightarrow> (0, []) | err # rest \<Rightarrow> (err, rest))"

subsection \<open>Launching the kernel\<close>

text \<open>Integer division and remainder of C++ (towards zero).\<close>

definition c_div :: "int \<Rightarrow> int \<Rightarrow> int" where
  "c_div a b = sgn a * sgn b * (\<bar>a\<bar> div \<bar>b\<bar>)"

definition c_mod :: "int \<Rightarrow> int \<Rightarrow> int" where
  "c_mod a b = a - b * c_div a b"

fun run_threads :: "(nat \<Rightarrow> buffers \<Rightarrow> buffers option) \<Rightarrow> nat list \<Rightarrow> buffers \<Rightarrow> buffers option" where
  "run_threads f [] b = Some b"
| "run_threads f (gid # gids) b =
     (case f gid b of None \<Rightarrow> None | Some b' \<Rightarrow> run_threads f gids b')"

record impl =
  impl_env :: env
  impl_num_convergence_points :: int
  impl_num_convergence_lines :: int
  impl_method :: int

text \<open>
  The launch runs \<open>num_blocks * num_threads\<close> threads. Each thread reads and writes the
  buffers at its own index only, so the model runs them one after the other.
\<close>

definition compute_streamlines :: "impl \<Rightarrow> int \<Rightarrow> int \<Rightarrow> float \<Rightarrow> buffers \<Rightarrow> buffers option" where
  "compute_streamlines m num_particles num_steps sign d =
     (let num_threads = 64;
          num_blocks = c_div num_particles num_threads
                       + (if c_mod num_particles num_threads = 0 then 0 else 1)
      in run_threads
           (compute_streamlines_kernel (impl_env m) (impl_num_convergence_points m)
              (impl_num_convergence_lines m) sign num_particles num_steps (impl_method m))
           [0..<nat (num_blocks * num_threads)] d)"

subsection \<open>The batch dispatcher\<close>

text \<open>The value of an \<^verbatim>\<open>unsigned int\<close> read as an \<^verbatim>\<open>int\<close>.\<close>

definition unsigned_to_int :: "nat \<Rightarrow> int" where
  "unsigned_to_int u = (if u < 2147483648 then int u else int u - 4294967296)"

text \<open>A copy back from the device overwrites \<open>n\<close> host entries from \<open>offset\<close> on.\<close>

definition copy_back :: "nat \<Rightarrow> nat \<Rightarrow> 'a list \<Rightarrow> 'a list \<Rightarrow> 'a list" where
  "copy_back offset n d_data h_data = take offset h_data @ take n d_data @ drop (offset + n) h_data"

text \<open>
  What the four copies to the device put into the device buffers, and what the four
  copies back leave in the host vectors. The host vector \<^verbatim>\<open>source\<close> of interleaved
  coordinates is the list \<open>particles\<close> of pairs; a device buffer holds the entries that
  were copied into it (the kernel touches no other entry).
\<close>

definition to_device :: "nat \<Rightarrow> nat \<Rightarrow> buffers \<Rightarrow> buffers" where
  "to_device n offset host =
     \<lparr>particles = take n (drop offset (particles host)),
      labels = take n (drop offset (labels host)),
      distances = take n (drop offset (distances host)),
      terminations = take n (drop offset (terminations host))\<rparr>"

definition from_device :: "nat \<Rightarrow> nat \<Rightarrow> buffers \<Rightarrow> buffers \<Rightarrow> buffers" where
  "from_device n offset d host =
     host\<lparr>labels := copy_back offset n (labels d) (labels host),
          distances := copy_back offset n (distances d) (distances host),
          terminations := copy_back offset n (terminations d) (terminations host),
          particles := copy_back offset n (particles d) (particles host)\<rparr>"

text \<open>
  One pass of the loop over the batches: four checked copies to the device, the kernel
  launch, four checked copies back.
\<close>

definition batch ::
  "impl \<Rightarrow> int \<Rightarrow> float \<Rightarrow> int \<Rightarrow> nat \<Rightarrow> nat list \<times> buffers \<Rightarrow> (error + nat list \<times> buffers) option" where
  "batch m num_integration_steps sign num_particles_this_batch offset dh =
     (case dh of (dev0, host) \<Rightarrow>
      let n = nat num_particles_this_batch in
      case cuda dev0 of (err, dev1) \<Rightarrow>
      if err \<noteq> 0
      then Some (Inl (runtime_error ''Error copying to GPU memory using cudaMemcpy for labels.'' err))
      else
      case cuda dev1 of (err, dev2) \<Rightarrow>
      if err \<noteq> 0
      then Some (Inl (runtime_error ''Error copying to GPU memory using cudaMemcpy for distances.'' err))
      else
      case cuda dev2 of (err, dev3) \<Rightarrow>
      if err \<noteq> 0
      then Some (Inl (runtime_error
                  ''Error copying to GPU memory using cudaMemcpy for termination reasons.'' err))
      else
      case cuda dev3 of (err, dev4) \<Rightarrow>
      if err \<noteq> 0
      then Some (Inl (runtime_error ''Error copying to GPU memory using cudaMemcpy for particles.'' err))
      else
      case compute_streamlines m num_particles_this_batch num_integration_steps sign
             (to_device n offset host) of
        None \<Rightarrow> None
      | Some d \<Rightarrow>
      case cuda dev4 of (err, dev5) \<Rightarrow>
      if err \<noteq> 0
      then Some (Inl (runtime_error ''Error copying from GPU memory using cudaMemcpy for labels.'' err))
      else
      case cuda dev5 of (err, dev6) \<Rightarrow>
      if err \<noteq> 0
      then Some (Inl (runtime_error
                  ''Error copying from GPU memory using cudaMemcpy for distances.'' err))
      else
      case cuda dev6 of (err, dev7) \<Rightarrow>
      if err \<noteq> 0
      then Some (Inl (runtime_error
                  ''Error copying from GPU memory using cudaMemcpy for termination reasons.'' err))
      else
      case cuda dev7 of (err, dev8) \<Rightarrow>
      if err \<noteq> 0
      then Some (Inl (runtime_error
                  ''Error copying from GPU memory using cudaMemcpy for particles.'' err))
      else
      Some (Inr (dev8, from_device n offset d host)))"

text \<open>
  The loop over the batches. \<open>offset\<close> is an \<^verbatim>\<open>unsigned int\<close>, so the addition wraps
  at \<open>2^32\<close>; nothing in the source bounds the number of passes.
\<close>

partial_function (option) batch_loop ::
  "impl \<Rightarrow> int \<Rightarrow> float \<Rightarrow> nat \<Rightarrow> nat \<Rightarrow> nat \<Rightarrow> nat list \<times> buffers \<Rightarrow> (error + buffers) option" where
  "batch_loop m num_integration_steps sign num_particles_per_batch num_particles offset dh =
     (if offset < num_particles then
        (case batch m num_integration_steps sign
                (unsigned_to_int (min num_particles_per_batch (num_particles - offset))) offset dh of
           None \<Rightarrow> None
         | Some (Inl err) \<Rightarrow> Some (Inl err)
         | Some (Inr dh') \<Rightarrow>
             batch_loop m num_integration_steps sign num_particles_per_batch num_particles
               ((offset + num_particles_per_batch) mod 4294967296) dh')
      else Some (Inr (snd dh)))"

text \<open>
  \<^verbatim>\<open>update_labels\<close>: four checked allocations, then the loop. The four \<^verbatim>\<open>cudaFree\<close>
  calls after the loop are not checked and change no result.
\<close>

definition update_labels ::
  "impl \<Rightarrow> nat list \<Rightarrow> buffers \<Rightarrow> int \<Rightarrow> float \<Rightarrow> nat \<Rightarrow> (error + buffers) option" where
  "update_labels m dev0 host num_integration_steps sign num_particles_per_batch =
     (let num_particles = length (particles host) mod 4294967296 in
      case cuda dev0 of (err, dev1) \<Rightarrow>
      if err \<noteq> 0
      then Some (Inl (runtime_error ''Error allocating memory using cudaMalloc for labels.'' err))
      else
      case cuda dev1 of (err, dev2) \<Rightarrow>
      if err \<noteq> 0
      then Some (Inl (runtime_error ''Error allocating memory using cudaMalloc for distances.'' err))
      else
      case cuda dev2 of (err, dev3) \<Rightarrow>
      if err \<noteq> 0
      then Some (Inl (runtime_error
                  ''Error allocating memory using cudaMalloc for termination reasons.'' err))
      else
      case cuda dev3 of (err, dev4) \<Rightarrow>
      if err \<noteq> 0
      then Some (Inl (runtime_error ''Error allocating memory using cudaMalloc for particles.'' err))
      else
      batch_loop m num_integration_steps sign num_particles_per_batch num_particles 0 (dev4, host))"

subsection \<open>Building the field store\<close>

text \<open>
  The two overloads of \<^verbatim>\<open>initialize_texture\<close>: the allocation and the copy are
  checked, \<^verbatim>\<open>cudaCreateTextureObject\<close> is called without a look at its result.
\<close>

definition initialize_texture_array :: "nat list \<Rightarrow> error + nat list" where
  "initialize_texture_array dev0 =
     (case cuda dev0 of (err, dev1) \<Rightarrow>
      if err \<noteq> 0
      then Inl (runtime_error
             ''Error allocating memory using cudaMalloc3DArray for velocity or RK4 step size.'' err)
      else
      case cuda dev1 of (err, dev2) \<Rightarrow>
      if err \<noteq> 0
      then Inl (runtime_error
             ''Error copying memory using cudaMemcpy3D for velocity or RK4 step size.'' err)
      else
      case cuda dev2 of (err, dev3) \<Rightarrow> Inr dev3)"

definition initialize_texture_linear :: "nat list \<Rightarrow> error + nat list" where
  "initialize_texture_linear dev0 =
     (case cuda dev0 of (err, dev1) \<Rightarrow>
      if err \<noteq> 0
      then Inl (runtime_error
             ''Error allocating memory using cudaMalloc for convergence structures.'' err)
      else
      case cuda dev1 of (err, dev2) \<Rightarrow>
      if err \<noteq> 0
      then Inl (runtime_error
             ''Error copying memory using cudaMemcpy for convergence structures.'' err)
      else
      case cuda dev2 of (err, dev3) \<Rightarrow> Inr dev3)"

text \<open>
  \<^verbatim>\<open>cudaMemcpyToSymbol\<close>, as the constructor calls it: the result code is dropped. The
  second component lists the symbols that did reach the device.
\<close>

datatype symbol = Const_data | Textures nat

definition memcpy_to_symbol :: "symbol \<Rightarrow> nat list \<times> symbol list \<Rightarrow> nat list \<times> symbol list" where
  "memcpy_to_symbol symb du =
     (case cuda (fst du) of (err, dev) \<Rightarrow> (dev, if err = 0 then snd du @ [symb] else snd du))"

record field_store =
  h_const_data :: "float2 list"
  h_rk4step :: float
  num_convergence_points :: int
  num_convergence_lines :: int
  uploaded :: "symbol list"

text \<open>\<^verbatim>\<open>resolution[i] - 1\<close> is computed on \<^verbatim>\<open>unsigned int\<close> and then converted.\<close>

definition resolution_minus_1 :: "nat \<Rightarrow> float" where
  "resolution_minus_1 r = Fin (of_nat ((r + 4294967295) mod 4294967296))"

text \<open>
  The constructor of \<^verbatim>\<open>streamlines_cuda_impl\<close>: the constants, and the device calls in
  the order of the source. Of the host data only the constants, the common value of the
  step-size texture and the sizes are kept.
\<close>

definition streamlines_cuda_impl ::
  "nat list \<Rightarrow> nat \<times> nat \<Rightarrow> float \<times> float \<times> float \<times> float \<Rightarrow> float list \<Rightarrow> int list \<Rightarrow>
   float list \<Rightarrow> int list \<Rightarrow> float \<Rightarrow> float \<Rightarrow> error + field_store" where
  "streamlines_cuda_impl dev0 resolution domain points ids lines lids
       integration_timestep max_integration_error =
     (case domain of (d0, d1, d2, d3) \<Rightarrow>
      let cellx = fdiv (fsub d2 d0) (resolution_minus_1 (fst resolution));
          celly = fdiv (fsub d3 d1) (resolution_minus_1 (snd resolution));
          cell_diag = fsqrt (fadd (fmul cellx cellx) (fmul celly celly));
          domain_offset = (d0, d1);
          domain_scale = (fdiv (Fin 1) (fsub d2 d0), fdiv (Fin 1) (fsub d3 d1));
          texture_offset = (Fin (- 0.5), Fin (- 0.5));
          texture_scale = (resolution_minus_1 (fst resolution), resolution_minus_1 (snd resolution));
          time_scale = (integration_timestep, integration_timestep);
          max_error = (max_integration_error, max_integration_error);
          cell_size = (cellx, celly);
          consts = [domain_offset, domain_scale, texture_offset, texture_scale, time_scale,
                    max_error, cell_size];
          du1 = memcpy_to_symbol Const_data (dev0, [])
      in
      case initialize_texture_array (fst du1) of Inl err \<Rightarrow> Inl err | Inr dev2 \<Rightarrow>
      let du3 = memcpy_to_symbol (Textures 0) (dev2, snd du1) in
      case initialize_texture_array (fst du3) of Inl err \<Rightarrow> Inl err | Inr dev4 \<Rightarrow>
      let du5 = memcpy_to_symbol (Textures 1) (dev4, snd du3) in
      case (if points \<noteq> [] then
              (case initialize_texture_linear (fst du5) of Inl err \<Rightarrow> Inl err | Inr dev6 \<Rightarrow>
               case initialize_texture_linear dev6 of Inl err \<Rightarrow> Inl err | Inr dev7 \<Rightarrow>
               Inr (memcpy_to_symbol (Textures 3) (memcpy_to_symbol (Textures 2) (dev7, snd du5))))
            else Inr du5) of
        Inl err \<Rightarrow> Inl err
      | Inr du8 \<Rightarrow>
      case (if lines \<noteq> [] then
              (case initialize_texture_linear (fst du8) of Inl err \<Rightarrow> Inl err | Inr dev9 \<Rightarrow>
               case initialize_texture_linear dev9 of Inl err \<Rightarrow> Inl err | Inr dev10 \<Rightarrow>
               Inr (memcpy_to_symbol (Textures 5) (memcpy_to_symbol (Textures 4) (dev10, snd du8))))
            else Inr du8) of
        Inl err \<Rightarrow> Inl err
      | Inr du11 \<Rightarrow>
      Inr \<lparr>h_const_data = consts, h_rk4step = cell_diag,
           num_convergence_points = int (length ids),
           num_convergence_lines = int (length lids),
           uploaded = snd du11\<rparr>)"

section \<open>Notions used to state the properties\<close>

text \<open>The four values that the buffers hold for the particle with index \<open>i\<close>.\<close>

definition particle_at :: "buffers \<Rightarrow> nat \<Rightarrow> particle" where
  "particle_at b i = (particles b ! i, labels b ! i, distances b ! i, terminations b ! i)"

definition buffers_of_size :: "nat \<Rightarrow> buffers \<Rightarrow> bool" where
  "buffers_of_size n b \<longleftrightarrow>
     length (particles b) = n \<and> length (labels b) = n \<and> length (distances b) = n \<and>
     length (terminations b) = n"

subsection \<open>Concrete fields\<close>

text \<open>
  A uniform field \<open>(1, 0)\<close> over the unit square with one cell, and a field that agrees
  with it on the texture row \<open>y = 0.5\<close> only.
\<close>

definition env_uniform :: env where
  "env_uniform =
     \<lparr>domain_offset = (Fin 0, Fin 0), domain_scale = (Fin 1, Fin 1),
      texture_offset = (Fin (- 0.5), Fin (- 0.5)), texture_scale = (Fin 1, Fin 1),
      time_scale = (Fin 0.5, Fin 0.5), max_error = (Fin 1, Fin 1), cell_size = (Fin 1, Fin 1),
      velocity = (\<lambda>q. (Fin 1, Fin 0)), rk4_step = (\<lambda>q. Fin 1),
      convergence_points = [], point_ids = [], convergence_lines = [], line_ids = [],
      shi_et_al = False\<rparr>"

definition velocity_band :: "float2 \<Rightarrow> float2" where
  "velocity_band q = (if snd q = Fin 0.5 then (Fin 1, Fin 0) else (Fin 7, Fin 7))"

text \<open>The zero field over the same square, and a dispatcher for each of the two.\<close>

definition env_zero :: env where
  "env_zero = env_uniform\<lparr>velocity := (\<lambda>q. (Fin 0, Fin 0))\<rparr>"

definition impl_uniform :: impl where
  "impl_uniform =
     \<lparr>impl_env = env_uniform, impl_num_convergence_points = 0,
      impl_num_convergence_lines = 0, impl_method = 0\<rparr>"

text \<open>Two particles: the first stopped earlier by stagnation, the second still active.\<close>

definition two_particles :: buffers where
  "two_particles =
     \<lparr>particles = [(Fin 0.25, Fin 0.25), (Fin 0, Fin 0)], labels = [Fin 4, Fin (- 1)],
      distances = [Fin 0.125, FLT_MAX], terminations = [Fin 2, Fin 0]\<rparr>"

text \<open>
  The reference the dispatcher is compared with: every particle put through
  \<open>kernel_particle\<close> on its own, with no batches. The result is \<open>None\<close> when the
  integration of some particle never returns.
\<close>

definition kernel_of :: "impl \<Rightarrow> int \<Rightarrow> float \<Rightarrow> particle \<Rightarrow> particle option" where
  "kernel_of m num_steps sign =
     kernel_particle (impl_env m) (impl_num_convergence_points m) (impl_num_convergence_lines m)
       sign num_steps (impl_method m)"

definition advect_all :: "impl \<Rightarrow> int \<Rightarrow> float \<Rightarrow> buffers \<Rightarrow> buffers option" where
  "advect_all m num_steps sign b =
     (let r = map (\<lambda>i. kernel_of m num_steps sign (particle_at b i)) [0..<length (particles b)]
      in if None \<in> set r then None
         else Some \<lparr>particles = map (\<lambda>x. fst (the x)) r,
                    labels = map (\<lambda>x. fst (snd (the x))) r,
                    distances = map (\<lambda>x. fst (snd (snd (the x)))) r,
                    terminations = map (\<lambda>x. snd (snd (snd (the x)))) r\<rparr>)"

text \<open>The second particle of \<open>two_particles\<close> after one step of the uniform field.\<close>

definition two_particles_advected :: buffers where
  "two_particles_advected = two_particles\<lparr>particles := [(Fin 0.25, Fin 0.25), (Fin 0.5, Fin 0)]\<rparr>"

subsection \<open>The step-size control in the words of the specification\<close>

text \<open>
  The factors \<open>max(0.1, 0.9 error^-0.25)\<close> and \<open>min(5.0, 0.9 error^-0.2)\<close>, and the
  time step after \<open>n\<close> rejected sub-steps, each of which multiplies the time step by
  the first factor. They are compared with \<open>advectRK45\<close> below.
\<close>

definition spec_shrink :: "float \<Rightarrow> float" where
  "spec_shrink error = fmaxf (Fin 0.1) (fmul (Fin 0.9) (powf error (- 0.25)))"

definition spec_grow :: "float \<Rightarrow> float" where
  "spec_grow error = fminf (Fin 5) (fmul (Fin 0.9) (powf error (- 0.2)))"

fun spec_retry_delta :: "env \<Rightarrow> float2 \<Rightarrow> float \<Rightarrow> float \<Rightarrow> float \<Rightarrow> nat \<Rightarrow> float" where
  "spec_retry_delta e p sign max_err delta 0 = delta"
| "spec_retry_delta e p sign max_err delta (Suc n) =
     spec_retry_delta e p sign max_err
       (fmul delta (spec_shrink (rk45_error e p delta sign max_err))) n"

text \<open>
  A field that is \<open>(0, 1)\<close> at the texture coordinates of the origin and \<open>(1, 1)\<close>
  everywhere else.
\<close>

definition env_stall :: env where
  "env_stall =
     env_uniform\<lparr>velocity :=
       (\<lambda>q. if q = (Fin 0.5, Fin 0.5) then (Fin 0, Fin 1) else (Fin 1, Fin 1))\<rparr>"

text \<open>A field that is \<open>(0, 1)\<close> below the texture row \<open>y = 2.5\<close> and \<open>(1, 1)\<close> from there on.\<close>

definition env_cliff :: env where
  "env_cliff =
     env_uniform\<lparr>velocity :=
       (\<lambda>q. if flt (snd q) (Fin 2.5) then (Fin 0, Fin 1) else (Fin 1, Fin 1))\<rparr>"

text \<open>A field with both components away from zero.\<close>

definition env_diagonal :: env where
  "env_diagonal = env_uniform\<lparr>velocity := (\<lambda>q. (Fin 1, Fin 2))\<rparr>"

text \<open>
  The zero field over the square \<open>[0, 2]^2\<close> with a single cell of size \<open>2 x 2\<close> and
  one convergence point with id 7 at \<open>(1, 1)\<close>; the same in the Shi et al. mode over
  the unit square.
\<close>

definition env_wide :: env where
  "env_wide =
     \<lparr>domain_offset = (Fin 0, Fin 0), domain_scale = (Fin 0.5, Fin 0.5),
      texture_offset = (Fin (- 0.5), Fin (- 0.5)), texture_scale = (Fin 1, Fin 1),
      time_scale = (Fin 0.5, Fin 0.5), max_error = (Fin 1, Fin 1), cell_size = (Fin 2, Fin 2),
      velocity = (\<lambda>q. (Fin 0, Fin 0)), rk4_step = (\<lambda>q. Fin 1),
      convergence_points = [(Fin 1, Fin 1)], point_ids = [Fin 7],
      convergence_lines = [], line_ids = [],
      shi_et_al = False\<rparr>"

definition env_shi :: env where
  "env_shi = env_zero\<lparr>convergence_points := [(Fin 1, Fin 0)], point_ids := [Fin 7],
                      shi_et_al := True\<rparr>"

text \<open>A distance has not increased: it is the same value or a smaller one.\<close>

definition not_increased :: "int \<times> float \<Rightarrow> int \<times> float \<Rightarrow> bool" where
  "not_increased new old \<longleftrightarrow> new = old \<or> flt (snd new) (snd old)"

text \<open>A thread state at \<open>(1, 0)\<close> that has seen the convergence point of \<open>env_wide\<close>.\<close>

definition state_wide :: thread_state where
  "state_wide =
     \<lparr>pos = (Fin 1, Fin 0), step = Fin 0.5, label = 7, dist = Fin 1, termination_code = 0\<rparr>"

text \<open>
  A thread state outside the unit square, and one in the Shi et al. mode that carries
  the label 5 and the distance 0.5 from an earlier round.
\<close>

definition state_outside :: thread_state where
  "state_outside =
     \<lparr>pos = (Fin 3, Fin 0), step = Fin 0.5, label = - 1, dist = FLT_MAX, termination_code = 0\<rparr>"

definition state_shi :: thread_state where
  "state_shi =
     \<lparr>pos = (Fin 0, Fin 0), step = Fin 0.5, label = 5, dist = Fin 0.5, termination_code = 0\<rparr>"

text \<open>The state at \<open>(1, 0)\<close> before any convergence structure has been seen.\<close>

definition state_fresh :: thread_state where
  "state_fresh =
     \<lparr>pos = (Fin 1, Fin 0), step = Fin 0.5, label = - 1, dist = FLT_MAX, termination_code = 0\<rparr>"

subsection \<open>The fixed step in the words of the specification\<close>

text \<open>
  One step with the four field evaluations at \<open>pos\<close>, \<open>pos + 0.5 k1\<close>,
  \<open>pos + 0.5 k2\<close> and \<open>pos + k3\<close>, each coefficient scaled by the local step-size
  hint (the value of the step-size texture at the position), the time step and the
  sign. It is compared with \<open>advectRK4\<close> below.
\<close>

definition spec_advectRK4 :: "env \<Rightarrow> float2 \<Rightarrow> float \<Rightarrow> float \<Rightarrow> float2" where
  "spec_advectRK4 e p delta sign =
     (let h = fmul (fmul (rk4_step e (pos_to_texcoords e p)) delta) sign;
          k1 = f2scale h (velocity e (pos_to_texcoords e p));
          k2 = f2scale h (velocity e (pos_to_texcoords e (f2add p (f2scale (Fin 0.5) k1))));
          k3 = f2scale h (velocity e (pos_to_texcoords e (f2add p (f2scale (Fin 0.5) k2))));
          k4 = f2scale h (velocity e (pos_to_texcoords e (f2add p k3)))
      in f2add p (f2scale (fdiv (Fin 1) (Fin 6))
                      (f2add (f2add (f2add k1 (f2scale (Fin 2) k2)) (f2scale (Fin 2) k3)) k4)))"

text \<open>
  The uniform field \<open>(1, 0)\<close> over the domain \<open>[0,3] x [0,4]\<close> with \<open>2 x 2\<close>
  nodes, with the constants as the constructor computes them: one cell of \<open>3 x 4\<close>,
  whose diagonal 5 fills the step-size texture.
\<close>

definition env_fast :: env where
  "env_fast =
     \<lparr>domain_offset = (Fin 0, Fin 0), domain_scale = (Fin (1 / 3), Fin (1 / 4)),
      texture_offset = (Fin (- 0.5), Fin (- 0.5)), texture_scale = (Fin 1, Fin 1),
      time_scale = (Fin 0.5, Fin 0.5), max_error = (Fin 1, Fin 1), cell_size = (Fin 3, Fin 4),
      velocity = (\<lambda>q. (Fin 1, Fin 0)), rk4_step = (\<lambda>q. Fin 5),
      convergence_points = [], point_ids = [], convergence_lines = [], line_ids = [],
      shi_et_al = False\<rparr>"

text \<open>
  Three more thread states: one on the convergence point of \<open>env_wide\<close>, one that the
  uniform field carries out of the unit square in one step, and one that it does not.
\<close>

definition state_near :: thread_state where
  "state_near =
     \<lparr>pos = (Fin 1, Fin 1), step = Fin 0.5, label = 7, dist = Fin 0, termination_code = 0\<rparr>"

definition state_leaving :: thread_state where
  "state_leaving =
     \<lparr>pos = (Fin 0.75, Fin 0), step = Fin 0.5, label = - 1, dist = FLT_MAX, termination_code = 0\<rparr>"

definition state_origin :: thread_state where
  "state_origin =
     \<lparr>pos = (Fin 0, Fin 0), step = Fin 0.5, label = - 1, dist = FLT_MAX, termination_code = 0\<rparr>"

section \<open>Properties\<close>

subsection \<open>Arithmetic on the special values\<close>

lemma fadd_zero_right: "fadd a (Fin 0) = a"
  by (cases a) simp_all

lemma fmul_zero_fin: "is_fin a \<Longrightarrow> fmul (Fin 0) a = Fin 0"
  by (cases a) simp_all

lemma f2add_zero_right: "f2add p (Fin 0, Fin 0) = p"
  by (simp add: f2add_def fadd_zero_right)

lemma fmul_self_fin: "fmul a a = Fin r \<Longrightarrow> \<exists>x. a = Fin x \<and> r = x * x"
  by (cases a) simp_all

lemma fadd_fin_fin: "fadd a b = Fin r \<Longrightarrow> \<exists>x y. a = Fin x \<and> b = Fin y \<and> r = x + y"
  by (cases a; cases b) simp_all

lemma fsqrt_zero: "fsqrt a = Fin 0 \<Longrightarrow> a = Fin 0"
  by (cases a) (simp_all split: if_splits)

lemma length_f2_zero: "length_f2 v = Fin 0 \<Longrightarrow> v = (Fin 0, Fin 0)"
proof -
  assume "length_f2 v = Fin 0"
  then have "fadd (fmul (fst v) (fst v)) (fmul (snd v) (snd v)) = Fin 0"
    by (simp add: length_f2_def f2dot_def fsqrt_zero)
  then obtain x y where xy: "fmul (fst v) (fst v) = Fin x" "fmul (snd v) (snd v) = Fin y" "0 = x + y"
    using fadd_fin_fin by blast
  from xy(1) obtain a where a: "fst v = Fin a" "x = a * a" using fmul_self_fin by blast
  from xy(2) obtain b where b: "snd v = Fin b" "y = b * b" using fmul_self_fin by blast
  from xy(3) a b have "a * a + b * b = 0" by simp
  then have "a = 0 \<and> b = 0" by (simp add: sum_squares_eq_zero_iff)
  with a b show ?thesis by (cases v) simp
qed

subsection \<open>The fixed-step integrator\<close>

lemma steps_per_cell_zero:
  "length_f2 (velocity e (pos_to_texcoords e p)) = Fin 0 \<Longrightarrow> steps_per_cell e p = Fin 0"
  by (simp add: steps_per_cell_def fgt_def)

lemma advectRK4_still:
  assumes mag: "length_f2 (velocity e (pos_to_texcoords e p)) = Fin 0"
    and fin: "is_fin delta" "is_fin sign"
  shows "steps_per_cell e p = Fin 0
       \<and> rk4_k1 e p delta sign = (Fin 0, Fin 0) \<and> rk4_k2 e p delta sign = (Fin 0, Fin 0)
       \<and> rk4_k3 e p delta sign = (Fin 0, Fin 0) \<and> rk4_k4 e p delta sign = (Fin 0, Fin 0)
       \<and> advectRK4 e p delta sign = p"
proof -
  have v: "velocity e (pos_to_texcoords e p) = (Fin 0, Fin 0)"
    using mag by (rule length_f2_zero)
  have s: "steps_per_cell e p = Fin 0" using mag by (rule steps_per_cell_zero)
  have h: "fmul (fmul (Fin 0) delta) sign = Fin 0"
    using fin by (simp add: fmul_zero_fin)
  have k1: "rk4_k1 e p delta sign = (Fin 0, Fin 0)"
    by (simp add: rk4_k1_def s h v f2scale_def)
  have k2: "rk4_k2 e p delta sign = (Fin 0, Fin 0)"
    by (simp add: rk4_k2_def s h k1 f2scale_def f2add_def fadd_zero_right v)
  have k3: "rk4_k3 e p delta sign = (Fin 0, Fin 0)"
    by (simp add: rk4_k3_def s h k2 f2scale_def f2add_def fadd_zero_right v)
  have k4: "rk4_k4 e p delta sign = (Fin 0, Fin 0)"
    by (simp add: rk4_k4_def s h k3 f2scale_def f2add_def fadd_zero_right v)
  have "advectRK4 e p delta sign = p"
    by (simp add: advectRK4_def k1 k2 k3 k4 f2scale_def f2add_def fadd_zero_right)
  with s k1 k2 k3 k4 show ?thesis by simp
qed

text \<open>
  Claim C10. In the fixed-step integrator, a field of zero magnitude at the current
  position makes the step-size factor \<open>steps_per_cell\<close> zero (the quotient of the
  minimum cell size by the magnitude is not formed), all four Runge-Kutta coefficients
  are zero and the step leaves the position as it is. The time step coefficient and the
  sign are ordinary numbers (neither infinite nor NaN).
\<close>

theorem advectRK4_zero_velocity:
  assumes "length_f2 (velocity e (pos_to_texcoords e p)) = Fin 0"
    and "is_fin delta" "is_fin sign"
  shows "steps_per_cell e p = Fin 0
       \<and> rk4_k1 e p delta sign = (Fin 0, Fin 0) \<and> rk4_k2 e p delta sign = (Fin 0, Fin 0)
       \<and> rk4_k3 e p delta sign = (Fin 0, Fin 0) \<and> rk4_k4 e p delta sign = (Fin 0, Fin 0)
       \<and> advectRK4 e p delta sign = p"
  using assms by (rule advectRK4_still)

theorem advectRK4_zero_velocity_witness:
  "length_f2 (velocity env_zero (pos_to_texcoords env_zero (Fin 0.3, Fin 0.4))) = Fin 0
   \<and> is_fin (Fin 0.5) \<and> is_fin (Fin 1)
   \<and> advectRK4 env_zero (Fin 0.3, Fin 0.4) (Fin 0.5) (Fin 1) = (Fin 0.3, Fin 0.4)"
proof -
  have m: "length_f2 (velocity env_zero (pos_to_texcoords env_zero (Fin 0.3, Fin 0.4))) = Fin 0"
    by (simp add: env_zero_def length_f2_def f2dot_def)
  have f: "is_fin (Fin 0.5)" "is_fin (Fin 1)" by simp_all
  from advectRK4_zero_velocity [OF m f] m f show ?thesis by simp
qed

lemma pos_to_texcoords_velocity [simp]:
  "pos_to_texcoords (e\<lparr>velocity := g\<rparr>) = pos_to_texcoords e"
  by (rule ext) (simp add: pos_to_texcoords_def)

lemma advectRK4_unfold:
  "advectRK4 e p delta sign =
    (let h = fmul (fmul (steps_per_cell e p) delta) sign;
         k1 = f2scale h (velocity e (pos_to_texcoords e p));
         k2 = f2scale h (velocity e (pos_to_texcoords e (f2add p (f2scale (Fin 0.5) k1))));
         k3 = f2scale h (velocity e (pos_to_texcoords e (f2add p (f2scale (Fin 0.5) k2))));
         k4 = f2scale h (velocity e (pos_to_texcoords e (f2add p k3)))
     in f2add p (f2scale (fdiv (Fin 1) (Fin 6))
                   (f2add (f2add (f2add k1 (f2scale (Fin 2) k2)) (f2scale (Fin 2) k3)) k4)))"
  by (simp add: advectRK4_def rk4_k1_def rk4_k2_def rk4_k3_def rk4_k4_def Let_def)

subsection \<open>The threads of one launch\<close>

lemma kernel_particle_terminated:
  "\<not> feq t (Fin 0) \<Longrightarrow> kernel_particle e ncp ncl sign steps method (p, l, d, t) = Some (p, l, d, t)"
  by (simp add: kernel_particle_def)

lemma kernel_other_index:
  assumes "compute_streamlines_kernel e ncp ncl sign np steps method g b = Some b'" "i \<noteq> g"
  shows "particle_at b' i = particle_at b i"
  using assms
  by (auto simp: compute_streamlines_kernel_def particle_at_def split: if_splits option.splits)

lemma kernel_size:
  assumes "compute_streamlines_kernel e ncp ncl sign np steps method g b = Some b'"
  shows "buffers_of_size n b' = buffers_of_size n b"
  using assms
  by (auto simp: compute_streamlines_kernel_def buffers_of_size_def split: if_splits option.splits)

lemma kernel_inactive:
  "\<not> int g < np \<Longrightarrow> compute_streamlines_kernel e ncp ncl sign np steps method g b = Some b"
  by (simp add: compute_streamlines_kernel_def)

lemma kernel_own_index:
  assumes "int g < np" "buffers_of_size n b" "g < n"
  shows "map_option (\<lambda>b'. particle_at b' g)
           (compute_streamlines_kernel e ncp ncl sign np steps method g b)
         = kernel_particle e ncp ncl sign steps method (particle_at b g)"
  using assms
  by (auto simp: compute_streamlines_kernel_def particle_at_def buffers_of_size_def
      split: option.splits)

lemma kernel_terminated_index:
  assumes "compute_streamlines_kernel e ncp ncl sign np steps method g b = Some b'"
    and "\<not> feq (terminations b ! i) (Fin 0)"
  shows "particle_at b' i = particle_at b i"
proof (cases "i = g")
  case False
  with assms(1) show ?thesis by (rule kernel_other_index)
next
  case True
  with assms show ?thesis
    by (auto simp: compute_streamlines_kernel_def particle_at_def kernel_particle_terminated
        split: if_splits)
qed

lemma run_threads_terminated_index:
  assumes "run_threads (compute_streamlines_kernel e ncp ncl sign np steps method) gids b = Some b'"
    and "\<not> feq (terminations b ! i) (Fin 0)"
  shows "particle_at b' i = particle_at b i"
  using assms
proof (induction gids arbitrary: b)
  case Nil
  then show ?case by simp
next
  case (Cons g gids)
  from Cons.prems(1) obtain b1 where
    b1: "compute_streamlines_kernel e ncp ncl sign np steps method g b = Some b1"
    and rest: "run_threads (compute_streamlines_kernel e ncp ncl sign np steps method) gids b1 = Some b'"
    by (auto split: option.splits)
  have same: "particle_at b1 i = particle_at b i"
    using b1 Cons.prems(2) by (rule kernel_terminated_index)
  then have "\<not> feq (terminations b1 ! i) (Fin 0)"
    using Cons.prems(2) by (simp add: particle_at_def)
  with rest have "particle_at b' i = particle_at b1 i" by (rule Cons.IH)
  with same show ?case by simp
qed

text \<open>
  Claim C7. A particle whose termination code is not zero when the kernel is launched
  on a batch is skipped: after the launch its position, label, distance and termination
  code in the buffers are what they were before.
\<close>

theorem terminated_particle_skipped:
  assumes "compute_streamlines m num_particles num_steps sign d = Some d'"
    and "\<not> feq (terminations d ! gid) (Fin 0)"
  shows "particles d' ! gid = particles d ! gid \<and> labels d' ! gid = labels d ! gid
       \<and> distances d' ! gid = distances d ! gid \<and> terminations d' ! gid = terminations d ! gid"
proof -
  have "particle_at d' gid = particle_at d gid"
    using assms unfolding compute_streamlines_def Let_def
    by (rule run_threads_terminated_index)
  then show ?thesis by (simp add: particle_at_def)
qed

lemma run_threads_append:
  "run_threads f (xs @ ys) b =
     (case run_threads f xs b of None \<Rightarrow> None | Some b' \<Rightarrow> run_threads f ys b')"
  by (induction xs arbitrary: b) (auto split: option.splits)

lemma run_threads_inactive:
  "\<forall>g \<in> set gids. \<not> int g < np \<Longrightarrow>
   run_threads (compute_streamlines_kernel e ncp ncl sign np steps method) gids b = Some b"
  by (induction gids) (simp_all add: kernel_inactive)

lemma run_threads_prefix_some:
  assumes "run_threads (compute_streamlines_kernel e ncp ncl sign (int n) steps method) [0..<k] b
             = Some b'"
    and "buffers_of_size n b" and "k \<le> n"
  shows "buffers_of_size n b'
       \<and> (\<forall>i<k. kernel_particle e ncp ncl sign steps method (particle_at b i) = Some (particle_at b' i))
       \<and> (\<forall>i\<ge>k. particle_at b' i = particle_at b i)"
  using assms
proof (induction k arbitrary: b')
  case 0
  then show ?case by simp
next
  case (Suc k)
  let ?K = "compute_streamlines_kernel e ncp ncl sign (int n) steps method"
  from Suc.prems(1) obtain b1 where
    b1: "run_threads ?K [0..<k] b = Some b1" and last: "?K k b1 = Some b'"
    by (auto simp: run_threads_append split: option.splits)
  from Suc.IH [OF b1 Suc.prems(2)] Suc.prems(3)
  have sz: "buffers_of_size n b1"
    and dn: "\<forall>i<k. kernel_particle e ncp ncl sign steps method (particle_at b i) = Some (particle_at b1 i)"
    and todo: "\<forall>i\<ge>k. particle_at b1 i = particle_at b i"
    by simp_all
  have kn: "k < n" using Suc.prems(3) by simp
  have "map_option (\<lambda>b'. particle_at b' k) (?K k b1)
          = kernel_particle e ncp ncl sign steps method (particle_at b1 k)"
    using kn sz by (intro kernel_own_index) simp_all
  with last todo have own: "kernel_particle e ncp ncl sign steps method (particle_at b k) = Some (particle_at b' k)"
    by simp
  have other: "particle_at b' i = particle_at b1 i" if "i \<noteq> k" for i
    using last that by (rule kernel_other_index)
  have sz': "buffers_of_size n b'" using kernel_size [OF last] sz by simp
  show ?case
  proof (intro conjI allI impI)
    show "buffers_of_size n b'" by (rule sz')
  next
    fix i assume "i < Suc k"
    then show "kernel_particle e ncp ncl sign steps method (particle_at b i) = Some (particle_at b' i)"
      using own other dn by (cases "i = k") auto
  next
    fix i assume "Suc k \<le> i"
    then show "particle_at b' i = particle_at b i"
      using other [of i] todo by simp
  qed
qed

lemma run_threads_prefix_none:
  assumes "run_threads (compute_streamlines_kernel e ncp ncl sign (int n) steps method) [0..<k] b
             = None"
    and "buffers_of_size n b" and "k \<le> n"
  shows "\<exists>i<k. kernel_particle e ncp ncl sign steps method (particle_at b i) = None"
  using assms
proof (induction k)
  case 0
  then show ?case by simp
next
  case (Suc k)
  let ?K = "compute_streamlines_kernel e ncp ncl sign (int n) steps method"
  show ?case
  proof (cases "run_threads ?K [0..<k] b")
    case None
    with Suc have "\<exists>i<k. kernel_particle e ncp ncl sign steps method (particle_at b i) = None"
      by simp
    then show ?thesis using less_Suc_eq by auto
  next
    case (Some b1)
    with Suc.prems(1) have last: "?K k b1 = None"
      by (simp add: run_threads_append split: option.splits)
    from run_threads_prefix_some [OF Some Suc.prems(2)] Suc.prems(3)
    have sz: "buffers_of_size n b1" and todo: "\<forall>i\<ge>k. particle_at b1 i = particle_at b i"
      by simp_all
    have kn: "k < n" using Suc.prems(3) by simp
    have "map_option (\<lambda>b'. particle_at b' k) (?K k b1)
          = kernel_particle e ncp ncl sign steps method (particle_at b1 k)"
      using kn sz by (intro kernel_own_index) simp_all
    with last todo have "kernel_particle e ncp ncl sign steps method (particle_at b k) = None"
      by simp
    then show ?thesis by blast
  qed
qed

lemma c_div_nonneg: "0 \<le> a \<Longrightarrow> 0 < b \<Longrightarrow> c_div a b = a div b"
  by (cases "a = 0") (simp_all add: c_div_def)

lemma c_mod_nonneg: "0 \<le> a \<Longrightarrow> 0 < b \<Longrightarrow> c_mod a b = a mod b"
  by (simp add: c_mod_def c_div_nonneg minus_mult_div_eq_mod)

lemma grid_covers:
  "n \<le> nat ((c_div (int n) 64 + (if c_mod (int n) 64 = 0 then 0 else 1)) * 64)"
proof -
  have "int n \<le> (int n div 64 + (if int n mod 64 = 0 then 0 else 1)) * 64"
    by (auto simp: algebra_simps)
  then show ?thesis by (simp add: c_div_nonneg c_mod_nonneg)
qed

lemma launch_split:
  assumes "buffers_of_size n d"
  shows "compute_streamlines m (int n) steps sign d =
     run_threads (compute_streamlines_kernel (impl_env m) (impl_num_convergence_points m)
              (impl_num_convergence_lines m) sign (int n) steps (impl_method m)) [0..<n] d"
proof -
  let ?K = "compute_streamlines_kernel (impl_env m) (impl_num_convergence_points m)
              (impl_num_convergence_lines m) sign (int n) steps (impl_method m)"
  let ?T = "nat ((c_div (int n) 64 + (if c_mod (int n) 64 = 0 then 0 else 1)) * 64)"
  have eq1: "[0..<?T] = [0..<n] @ [n..<?T]"
    using grid_covers [of n] by (metis le_add_diff_inverse upt_add_eq_append zero_le)
  have idle: "run_threads ?K [n..<?T] b = Some b" for b
    by (rule run_threads_inactive) simp
  have "compute_streamlines m (int n) steps sign d = run_threads ?K [0..<?T] d"
    by (simp add: compute_streamlines_def Let_def)
  also have "\<dots> = (case run_threads ?K [0..<n] d of None \<Rightarrow> None
                     | Some b' \<Rightarrow> run_threads ?K [n..<?T] b')"
    by (subst eq1) (rule run_threads_append)
  also have "\<dots> = run_threads ?K [0..<n] d"
    by (cases "run_threads ?K [0..<n] d") (simp_all only: idle option.case)
  finally show ?thesis .
qed

lemma launch_some:
  assumes "compute_streamlines m (int n) steps sign d = Some d'" and "buffers_of_size n d"
  shows "buffers_of_size n d'
       \<and> (\<forall>i<n. kernel_of m steps sign (particle_at d i) = Some (particle_at d' i))"
  using run_threads_prefix_some [of _ _ _ _ n _ _ n d d'] assms
  by (simp add: launch_split kernel_of_def)

lemma launch_none:
  assumes "compute_streamlines m (int n) steps sign d = None" and "buffers_of_size n d"
  shows "\<exists>i<n. kernel_of m steps sign (particle_at d i) = None"
  using run_threads_prefix_none [of _ _ _ _ n _ _ n d] assms
  by (simp add: launch_split kernel_of_def)

subsection \<open>The batch dispatcher\<close>

lemma cuda_ok:
  assumes "\<forall>err \<in> set dev. err = 0"
  obtains dev' where "cuda dev = (0, dev')" and "\<forall>err \<in> set dev'. err = 0"
  using assms by (cases dev) (simp_all add: cuda_def)

lemma copy_back_length:
  "length ds = nb \<Longrightarrow> offset + nb \<le> length hs \<Longrightarrow> length (copy_back offset nb ds hs) = length hs"
  by (simp add: copy_back_def)

lemma copy_back_nth:
  assumes "length ds = nb" "offset + nb \<le> length hs" "i < length hs"
  shows "copy_back offset nb ds hs ! i =
           (if offset \<le> i \<and> i < offset + nb then ds ! (i - offset) else hs ! i)"
  using assms by (auto simp: copy_back_def nth_append)

lemma batch_all_succeed:
  assumes "\<forall>err \<in> set dev. err = 0"
  obtains dev' where "\<forall>err \<in> set dev'. err = 0" and
    "batch m steps sign (int nb) offset (dev, host) =
       (case compute_streamlines m (int nb) steps sign (to_device nb offset host) of
          None \<Rightarrow> None
        | Some d \<Rightarrow> Some (Inr (dev', from_device nb offset d host)))"
proof -
  from assms obtain d1 where 1: "cuda dev = (0, d1)" "\<forall>err \<in> set d1. err = 0" by (rule cuda_ok)
  from 1(2) obtain d2 where 2: "cuda d1 = (0, d2)" "\<forall>err \<in> set d2. err = 0" by (rule cuda_ok)
  from 2(2) obtain d3 where 3: "cuda d2 = (0, d3)" "\<forall>err \<in> set d3. err = 0" by (rule cuda_ok)
  from 3(2) obtain d4 where 4: "cuda d3 = (0, d4)" "\<forall>err \<in> set d4. err = 0" by (rule cuda_ok)
  from 4(2) obtain d5 where 5: "cuda d4 = (0, d5)" "\<forall>err \<in> set d5. err = 0" by (rule cuda_ok)
  from 5(2) obtain d6 where 6: "cuda d5 = (0, d6)" "\<forall>err \<in> set d6. err = 0" by (rule cuda_ok)
  from 6(2) obtain d7 where 7: "cuda d6 = (0, d7)" "\<forall>err \<in> set d7. err = 0" by (rule cuda_ok)
  from 7(2) obtain d8 where 8: "cuda d7 = (0, d8)" "\<forall>err \<in> set d8. err = 0" by (rule cuda_ok)
  have "batch m steps sign (int nb) offset (dev, host) =
       (case compute_streamlines m (int nb) steps sign (to_device nb offset host) of
          None \<Rightarrow> None
        | Some d \<Rightarrow> Some (Inr (d8, from_device nb offset d host)))"
    by (simp add: 8 batch_def Let_def 1 2 3 4 5 6 7 split: option.splits)
  with 8(2) show ?thesis by (rule that)
qed

lemma to_device_particle_at:
  assumes "buffers_of_size n host" "offset + nb \<le> n" "j < nb"
  shows "particle_at (to_device nb offset host) j = particle_at host (offset + j)"
  using assms by (simp add: particle_at_def buffers_of_size_def to_device_def)

lemma to_device_size:
  assumes "buffers_of_size n host" "offset + nb \<le> n"
  shows "buffers_of_size nb (to_device nb offset host)"
  using assms by (simp add: buffers_of_size_def to_device_def)

lemma from_device_size:
  assumes "buffers_of_size n host" "buffers_of_size nb d" "offset + nb \<le> n"
  shows "buffers_of_size n (from_device nb offset d host)"
  using assms by (simp add: buffers_of_size_def copy_back_length from_device_def)

lemma from_device_particle_at:
  assumes "buffers_of_size n host" "buffers_of_size nb d" "offset + nb \<le> n" "i < n"
  shows "particle_at (from_device nb offset d host) i
         = (if offset \<le> i \<and> i < offset + nb then particle_at d (i - offset) else particle_at host i)"
  using assms by (simp add: buffers_of_size_def particle_at_def copy_back_nth from_device_def)

text \<open>The effect of one batch when every device call succeeds.\<close>

lemma batch_effect:
  assumes ok: "\<forall>err \<in> set dev. err = 0"
    and sz: "buffers_of_size n host" and fit: "offset + nb \<le> n"
  shows "(\<exists>i. offset \<le> i \<and> i < offset + nb \<and> kernel_of m steps sign (particle_at host i) = None)
           \<and> batch m steps sign (int nb) offset (dev, host) = None
       \<or> (\<exists>dev' host'. batch m steps sign (int nb) offset (dev, host) = Some (Inr (dev', host'))
            \<and> (\<forall>err \<in> set dev'. err = 0) \<and> buffers_of_size n host'
            \<and> (\<forall>i<n. if offset \<le> i \<and> i < offset + nb
                       then kernel_of m steps sign (particle_at host i) = Some (particle_at host' i)
                       else particle_at host' i = particle_at host i))"
proof (rule batch_all_succeed [OF ok, of m steps sign nb offset host])
  fix dev'
  assume dev': "\<forall>err \<in> set dev'. err = 0" and
    b: "batch m steps sign (int nb) offset (dev, host) =
       (case compute_streamlines m (int nb) steps sign (to_device nb offset host) of
          None \<Rightarrow> None
        | Some d \<Rightarrow> Some (Inr (dev', from_device nb offset d host)))"
  have csz: "buffers_of_size nb (to_device nb offset host)" using sz fit by (rule to_device_size)
  show ?thesis
  proof (cases "compute_streamlines m (int nb) steps sign (to_device nb offset host)")
    case None
    from launch_none [OF None csz] obtain j where
      j: "j < nb" "kernel_of m steps sign (particle_at (to_device nb offset host) j) = None" by blast
    have "kernel_of m steps sign (particle_at host (offset + j)) = None"
      using j to_device_particle_at [OF sz fit j(1)] by simp
    moreover have "batch m steps sign (int nb) offset (dev, host) = None"
      using None b by simp
    moreover have "offset \<le> offset + j \<and> offset + j < offset + nb" using j(1) by simp
    ultimately show ?thesis by (intro disjI1) blast
  next
    case (Some d)
    from launch_some [OF Some csz] have dsz: "buffers_of_size nb d"
      and res: "\<forall>j<nb. kernel_of m steps sign (particle_at (to_device nb offset host) j)
                  = Some (particle_at d j)"
      by simp_all
    have hsz: "buffers_of_size n (from_device nb offset d host)"
      using sz dsz fit by (rule from_device_size)
    have eff: "if offset \<le> i \<and> i < offset + nb
               then kernel_of m steps sign (particle_at host i)
                    = Some (particle_at (from_device nb offset d host) i)
               else particle_at (from_device nb offset d host) i = particle_at host i"
      if "i < n" for i
    proof (cases "offset \<le> i \<and> i < offset + nb")
      case True
      then have j: "i - offset < nb" by auto
      have "kernel_of m steps sign (particle_at (to_device nb offset host) (i - offset))
              = Some (particle_at d (i - offset))"
        using res j by blast
      moreover have "particle_at (to_device nb offset host) (i - offset) = particle_at host i"
        using to_device_particle_at [OF sz fit j] True by simp
      ultimately show ?thesis
        using True from_device_particle_at [OF sz dsz fit that] by simp
    next
      case False
      then show ?thesis using from_device_particle_at [OF sz dsz fit that] by auto
    qed
    from Some b have "batch m steps sign (int nb) offset (dev, host)
                        = Some (Inr (dev', from_device nb offset d host))"
      by simp
    with dev' hsz eff show ?thesis by (intro disjI2) blast
  qed
qed

lemma advect_all_some:
  assumes sz0: "buffers_of_size n h0" and sz: "buffers_of_size n h"
    and all: "\<forall>i<n. kernel_of m steps sign (particle_at h0 i) = Some (particle_at h i)"
  shows "advect_all m steps sign h0 = Some h"
proof -
  let ?r = "map (\<lambda>i. kernel_of m steps sign (particle_at h0 i)) [0..<length (particles h0)]"
  have n: "length (particles h0) = n" using sz0 by (simp add: buffers_of_size_def)
  have r: "?r = map (\<lambda>i. Some (particle_at h i)) [0..<n]"
    using all by (simp add: n)
  have none: "None \<notin> set ?r" unfolding r by auto
  have p: "map (\<lambda>x. fst (the x)) ?r = particles h"
    unfolding r using sz by (simp add: list_eq_iff_nth_eq buffers_of_size_def particle_at_def)
  have l: "map (\<lambda>x. fst (snd (the x))) ?r = labels h"
    unfolding r using sz by (simp add: list_eq_iff_nth_eq buffers_of_size_def particle_at_def)
  have d: "map (\<lambda>x. fst (snd (snd (the x)))) ?r = distances h"
    unfolding r using sz by (simp add: list_eq_iff_nth_eq buffers_of_size_def particle_at_def)
  have t: "map (\<lambda>x. snd (snd (snd (the x)))) ?r = terminations h"
    unfolding r using sz by (simp add: list_eq_iff_nth_eq buffers_of_size_def particle_at_def)
  have "advect_all m steps sign h0 =
          Some \<lparr>particles = map (\<lambda>x. fst (the x)) ?r, labels = map (\<lambda>x. fst (snd (the x))) ?r,
                distances = map (\<lambda>x. fst (snd (snd (the x)))) ?r,
                terminations = map (\<lambda>x. snd (snd (snd (the x)))) ?r\<rparr>"
    using none unfolding advect_all_def Let_def by (simp only: if_False)
  also have "\<dots> = Some h"
    by (simp only: p l d t) simp
  finally show ?thesis .
qed

lemma advect_all_none:
  assumes "buffers_of_size n h0" "i < n" "kernel_of m steps sign (particle_at h0 i) = None"
  shows "advect_all m steps sign h0 = None"
proof -
  have "None \<in> set (map (\<lambda>i. kernel_of m steps sign (particle_at h0 i)) [0..<length (particles h0)])"
    using assms by (force simp: buffers_of_size_def)
  then show ?thesis unfolding advect_all_def Let_def by (simp only: if_True)
qed

lemma unsigned_to_int_small: "u < 2147483648 \<Longrightarrow> unsigned_to_int u = int u"
  by (simp add: unsigned_to_int_def)

lemma batch_loop_all:
  assumes B: "0 < B" "B < 4294967296" and n: "n < 2147483648"
    and sz0: "buffers_of_size n h0"
  shows "\<lbrakk>\<forall>err \<in> set dev. err = 0; buffers_of_size n h;
          \<forall>i<n. i < offset \<longrightarrow> kernel_of m steps sign (particle_at h0 i) = Some (particle_at h i);
          \<forall>i<n. offset \<le> i \<longrightarrow> particle_at h i = particle_at h0 i;
          offset = 0 \<or> B \<le> offset\<rbrakk>
         \<Longrightarrow> batch_loop m steps sign B n offset (dev, h) = map_option Inr (advect_all m steps sign h0)"
proof (induction "n - offset" arbitrary: offset dev h rule: less_induct)
  case less
  note ok = less.prems(1) and sz = less.prems(2) and inv1 = less.prems(3) and inv2 = less.prems(4)
    and off = less.prems(5)
  show ?case
  proof (cases "offset < n")
    case False
    then have "\<forall>i<n. kernel_of m steps sign (particle_at h0 i) = Some (particle_at h i)"
      using inv1 by auto
    with sz0 sz have "advect_all m steps sign h0 = Some h" by (rule advect_all_some)
    moreover have "batch_loop m steps sign B n offset (dev, h) = Some (Inr h)"
      using False by (subst batch_loop.simps) simp
    ultimately show ?thesis by simp
  next
    case True
    define nb where "nb = min B (n - offset)"
    have fit: "offset + nb \<le> n" using True by (simp add: nb_def)
    have nbi: "unsigned_to_int (min B (n - offset)) = int nb"
      using n by (simp add: nb_def unsigned_to_int_small)
    have next_off: "(offset + B) mod 4294967296 = offset + B"
      using off B n True by auto
    have unfold: "batch_loop m steps sign B n offset (dev, h) =
        (case batch m steps sign (int nb) offset (dev, h) of
           None \<Rightarrow> None
         | Some (Inl err) \<Rightarrow> Some (Inl err)
         | Some (Inr dh') \<Rightarrow> batch_loop m steps sign B n (offset + B) dh')"
      using True
      by (subst batch_loop.simps) (simp add: nbi next_off cong: option.case_cong sum.case_cong)
    from batch_effect [OF ok sz fit, of m steps sign]
    show ?thesis
    proof (elim disjE conjE exE)
      fix i
      assume i: "offset \<le> i" "i < offset + nb"
        and none: "kernel_of m steps sign (particle_at h i) = None"
        and b: "batch m steps sign (int nb) offset (dev, h) = None"
      have "i < n" using i fit by simp
      moreover have "kernel_of m steps sign (particle_at h0 i) = None"
        using none inv2 i \<open>i < n\<close> by simp
      ultimately have "advect_all m steps sign h0 = None"
        using sz0 by (intro advect_all_none)
      with b unfold show ?thesis by simp
    next
      fix dev' h'
      assume b: "batch m steps sign (int nb) offset (dev, h) = Some (Inr (dev', h'))"
        and ok': "\<forall>err \<in> set dev'. err = 0" and sz': "buffers_of_size n h'"
        and eff: "\<forall>i<n. if offset \<le> i \<and> i < offset + nb
                       then kernel_of m steps sign (particle_at h i) = Some (particle_at h' i)
                       else particle_at h' i = particle_at h i"
      have inv1': "\<forall>i<n. i < offset + B \<longrightarrow>
                     kernel_of m steps sign (particle_at h0 i) = Some (particle_at h' i)"
      proof (intro allI impI)
        fix i assume i: "i < n" "i < offset + B"
        show "kernel_of m steps sign (particle_at h0 i) = Some (particle_at h' i)"
        proof (cases "offset \<le> i")
          case True
          then have "i < offset + nb" using i by (simp add: nb_def)
          with True eff i(1) have "kernel_of m steps sign (particle_at h i) = Some (particle_at h' i)"
            by simp
          then show ?thesis using inv2 i(1) True by simp
        next
          case False
          with eff i(1) have "particle_at h' i = particle_at h i" by simp
          then show ?thesis using inv1 i(1) False by simp
        qed
      qed
      have inv2': "\<forall>i<n. offset + B \<le> i \<longrightarrow> particle_at h' i = particle_at h0 i"
      proof (intro allI impI)
        fix i assume i: "i < n" "offset + B \<le> i"
        then have "\<not> (offset \<le> i \<and> i < offset + nb)" by (simp add: nb_def)
        with eff i(1) have "particle_at h' i = particle_at h i" by simp
        then show "particle_at h' i = particle_at h0 i" using inv2 i by simp
      qed
      have "batch_loop m steps sign B n (offset + B) (dev', h')
              = map_option Inr (advect_all m steps sign h0)"
        using True B(1) ok' sz' inv1' inv2' by (intro less.hyps) simp_all
      with b unfold show ?thesis by simp
    qed
  qed
qed

lemma update_labels_all:
  assumes B: "0 < B" "B < 4294967296"
    and n: "length (particles host) < 2147483648"
    and sz: "buffers_of_size (length (particles host)) host"
    and ok: "\<forall>err \<in> set dev. err = 0"
  shows "update_labels m dev host steps sign B = map_option Inr (advect_all m steps sign host)"
proof -
  from ok obtain d1 where 1: "cuda dev = (0, d1)" "\<forall>err \<in> set d1. err = 0" by (rule cuda_ok)
  from 1(2) obtain d2 where 2: "cuda d1 = (0, d2)" "\<forall>err \<in> set d2. err = 0" by (rule cuda_ok)
  from 2(2) obtain d3 where 3: "cuda d2 = (0, d3)" "\<forall>err \<in> set d3. err = 0" by (rule cuda_ok)
  from 3(2) obtain d4 where 4: "cuda d3 = (0, d4)" "\<forall>err \<in> set d4. err = 0" by (rule cuda_ok)
  have "update_labels m dev host steps sign B
          = batch_loop m steps sign B (length (particles host)) 0 (d4, host)"
    using n by (simp add: update_labels_def 1 2 3 4)
  also have "\<dots> = map_option Inr (advect_all m steps sign host)"
    using B n sz 4(2) by (intro batch_loop_all) simp_all
  finally show ?thesis .
qed

text \<open>
  Claim C6, amended. For any two batch sizes that are positive, and as long as every
  device call succeeds and there are fewer than \<open>2^31\<close> particles, the dispatcher gives
  the same result: the positions, labels, distances and termination codes of all
  particles, or no result when the integration of some particle never returns.
\<close>

theorem batch_size_invariance:
  assumes "0 < B1" "B1 < 4294967296" "0 < B2" "B2 < 4294967296"
    and "length (particles host) < 2147483648"
    and "buffers_of_size (length (particles host)) host"
    and "\<forall>err \<in> set dev1. err = 0" "\<forall>err \<in> set dev2. err = 0"
  shows "update_labels m dev1 host steps sign B1 = update_labels m dev2 host steps sign B2"
  using assms by (simp add: update_labels_all)

lemma batch_loop_zero_diverges:
  assumes "\<forall>err \<in> set (fst dh). err = 0" "offset < n" "n \<le> 4294967296"
  shows "batch_loop m steps sign 0 n offset dh = None"
proof (rule ccontr)
  assume "batch_loop m steps sign 0 n offset dh \<noteq> None"
  then obtain y where y: "batch_loop m steps sign 0 n offset dh = Some y" by blast
  have "\<lbrakk>B = 0; \<forall>err \<in> set (fst dh). err = 0; offset < n; n \<le> 4294967296\<rbrakk> \<Longrightarrow> False"
    if "batch_loop m steps sign B n offset dh = Some y" for B
    using that
  proof (induction m steps sign B n offset dh y rule: batch_loop.raw_induct [rotated 1, consumes 1])
    case (1 loop m steps sign B n offset dh y)
    obtain dev h where dh: "dh = (dev, h)" by (cases dh)
    have ok: "\<forall>err \<in> set dev. err = 0" using 1 dh by simp
    have off: "(offset + 0) mod 4294967296 = offset" using 1 by simp
    show ?case
    proof (rule batch_all_succeed [OF ok, of m steps sign 0 offset h])
      fix dev'
      assume ok': "\<forall>err \<in> set dev'. err = 0"
        and b: "batch m steps sign (int 0) offset (dev, h) =
          (case compute_streamlines m (int 0) steps sign (to_device 0 offset h) of
             None \<Rightarrow> None
           | Some d \<Rightarrow> Some (Inr (dev', from_device 0 offset d h)))"
      show False
      proof (cases "compute_streamlines m (int 0) steps sign (to_device 0 offset h)")
        case None
        with b 1 dh show False by (simp add: unsigned_to_int_def)
      next
        case (Some d)
        with b 1(2) 1(3) 1(5) dh off
        have "loop m steps sign 0 n offset (dev', from_device 0 offset d h) = Some y"
          by (simp add: unsigned_to_int_def)
        from 1(1) [OF this] ok' 1(5,6) show False by simp
      qed
    qed
  qed
  from this [OF y] assms show False by simp
qed

lemma kernel_of_stopped:
  "kernel_of impl_uniform 1 (Fin 1) ((Fin 0.25, Fin 0.25), Fin 4, Fin 0.125, Fin 2)
     = Some ((Fin 0.25, Fin 0.25), Fin 4, Fin 0.125, Fin 2)"
  by (simp add: kernel_of_def kernel_particle_terminated)

lemma kernel_of_active:
  "kernel_of impl_uniform 1 (Fin 1) ((Fin 0, Fin 0), Fin (- 1), FLT_MAX, Fin 0)
     = Some ((Fin 0.5, Fin 0), Fin (- 1), FLT_MAX, Fin 0)"
  by (simp add: kernel_of_def impl_uniform_def kernel_particle_def
      update_label_and_dist_def env_uniform_def kernel_step_def advect_def
      advectRK4_unfold steps_per_cell_def pos_to_texcoords_def f2mul_def f2sub_def f2add_def fsub_def
      length_f2_def f2dot_def fgt_def fminf_def f2scale_def outside_domain_def
      short_to_float_def float_trunc_def FLT_MAX_def)

lemma two_particles_size: "buffers_of_size 2 two_particles" "buffers_of_size 2 two_particles_advected"
  by (simp_all add: buffers_of_size_def two_particles_def two_particles_advected_def)

lemma advect_all_two_particles:
  "advect_all impl_uniform 1 (Fin 1) two_particles = Some two_particles_advected"
proof (rule advect_all_some [OF two_particles_size])
  show "\<forall>i<2. kernel_of impl_uniform 1 (Fin 1) (particle_at two_particles i)
                = Some (particle_at two_particles_advected i)"
  proof (intro allI impI)
    fix i :: nat assume "i < 2"
    then have "i = 0 \<or> i = 1" by auto
    then show "kernel_of impl_uniform 1 (Fin 1) (particle_at two_particles i)
                = Some (particle_at two_particles_advected i)"
      using kernel_of_stopped kernel_of_active
      by (auto simp: particle_at_def two_particles_def two_particles_advected_def)
  qed
qed

text \<open>
  Claim C6 as stated, for any two batch sizes, fails at the batch size 0: the loop over
  the batches never advances and the dispatcher does not return, while it returns the
  advected particles for the batch size 100.
\<close>

theorem batch_size_zero_counterexample:
  "update_labels impl_uniform [] two_particles 1 (Fin 1) 0 = None
   \<and> update_labels impl_uniform [] two_particles 1 (Fin 1) 100 = Some (Inr two_particles_advected)"
proof
  have "update_labels impl_uniform [] two_particles 1 (Fin 1) 0
          = batch_loop impl_uniform 1 (Fin 1) 0 (length (particles two_particles)) 0
              ([], two_particles)"
    by (simp add: update_labels_def cuda_def two_particles_def)
  also have "\<dots> = None"
    by (rule batch_loop_zero_diverges) (simp_all add: two_particles_def)
  finally show "update_labels impl_uniform [] two_particles 1 (Fin 1) 0 = None" .
next
  have "update_labels impl_uniform [] two_particles 1 (Fin 1) 100
          = map_option Inr (advect_all impl_uniform 1 (Fin 1) two_particles)"
    by (rule update_labels_all) (simp_all add: two_particles_def buffers_of_size_def)
  then show "update_labels impl_uniform [] two_particles 1 (Fin 1) 100 = Some (Inr two_particles_advected)"
    by (simp add: advect_all_two_particles)
qed

theorem batch_size_invariance_witness:
  "update_labels impl_uniform [] two_particles 1 (Fin 1) 1
     = update_labels impl_uniform [0, 0] two_particles 1 (Fin 1) 100"
  by (rule batch_size_invariance) (simp_all add: two_particles_def buffers_of_size_def)

lemma launch_two_particles:
  "compute_streamlines impl_uniform 2 1 (Fin 1) two_particles = Some two_particles_advected"
proof (cases "compute_streamlines impl_uniform (int 2) 1 (Fin 1) two_particles")
  case None
  from launch_none [OF None two_particles_size(1)] obtain i where
    "i < 2" "kernel_of impl_uniform 1 (Fin 1) (particle_at two_particles i) = None" by blast
  then have "i = 0 \<or> i = 1" by auto
  with \<open>kernel_of impl_uniform 1 (Fin 1) (particle_at two_particles i) = None\<close>
  show ?thesis using kernel_of_stopped kernel_of_active
    by (auto simp: particle_at_def two_particles_def)
next
  case (Some d')
  from launch_some [OF Some two_particles_size(1)]
  have sz: "buffers_of_size 2 d'"
    and r: "\<forall>i<2. kernel_of impl_uniform 1 (Fin 1) (particle_at two_particles i) = Some (particle_at d' i)"
    by simp_all
  from advect_all_some [OF two_particles_size(1) sz r] advect_all_two_particles
  have "d' = two_particles_advected" by simp
  with Some show ?thesis by simp
qed

theorem terminated_particle_skipped_witness:
  "compute_streamlines impl_uniform 2 1 (Fin 1) two_particles = Some two_particles_advected
   \<and> \<not> feq (terminations two_particles ! 0) (Fin 0)
   \<and> particles two_particles_advected ! 0 = particles two_particles ! 0
   \<and> labels two_particles_advected ! 0 = labels two_particles ! 0
   \<and> distances two_particles_advected ! 0 = distances two_particles ! 0
   \<and> terminations two_particles_advected ! 0 = terminations two_particles ! 0"
proof -
  have t: "\<not> feq (terminations two_particles ! 0) (Fin 0)"
    by (simp add: two_particles_def)
  from terminated_particle_skipped [OF launch_two_particles t] launch_two_particles t
  show ?thesis by simp
qed

subsection \<open>The adaptive integrator\<close>

lemma spec_factors:
  "fmaxf max_shrink (fmul safety (powf error shrink_exponent)) = spec_shrink error"
  "fminf max_growth (fmul safety (powf error grow_exponent)) = spec_grow error"
  by (simp_all add: spec_shrink_def spec_grow_def cash_karp)

lemma advectRK45_unfold:
  "advectRK45 e p delta sign max_err =
     (if fgt (rk45_error e p delta sign max_err) (Fin 1)
      then advectRK45 e p (fmul delta (spec_shrink (rk45_error e p delta sign max_err))) sign max_err
      else Some (rk45_fifth_order e p delta sign,
                 fmul delta (spec_grow (rk45_error e p delta sign max_err)),
                 (delta, rk45_error e p delta sign max_err)))"
  by (subst advectRK45.simps) (simp add: Let_def spec_factors)

lemma advectRK45_retries:
  assumes "advectRK45 e p delta sign max_err = Some r"
  shows "\<exists>n. (\<forall>i<n. fgt (rk45_error e p (spec_retry_delta e p sign max_err delta i) sign max_err) (Fin 1))
           \<and> \<not> fgt (rk45_error e p (spec_retry_delta e p sign max_err delta n) sign max_err) (Fin 1)
           \<and> r = (rk45_fifth_order e p (spec_retry_delta e p sign max_err delta n) sign,
                  fmul (spec_retry_delta e p sign max_err delta n)
                    (spec_grow (rk45_error e p (spec_retry_delta e p sign max_err delta n) sign max_err)),
                  (spec_retry_delta e p sign max_err delta n,
                   rk45_error e p (spec_retry_delta e p sign max_err delta n) sign max_err))"
  using assms
proof (induction e p delta sign max_err r rule: advectRK45.raw_induct [rotated 1, consumes 1])
  case (1 loop e p delta sign max_err r)
  show ?case
  proof (cases "fgt (rk45_error e p delta sign max_err) (Fin 1)")
    case True
    with 1(2) have "loop e p (fmul delta (spec_shrink (rk45_error e p delta sign max_err))) sign max_err
                      = Some r"
      by (simp add: Let_def spec_factors)
    from 1(1) [OF this] obtain n where
      n: "\<forall>i<n. fgt (rk45_error e p (spec_retry_delta e p sign max_err delta (Suc i)) sign max_err) (Fin 1)"
         "\<not> fgt (rk45_error e p (spec_retry_delta e p sign max_err delta (Suc n)) sign max_err) (Fin 1)"
         "r = (rk45_fifth_order e p (spec_retry_delta e p sign max_err delta (Suc n)) sign,
                  fmul (spec_retry_delta e p sign max_err delta (Suc n))
                    (spec_grow (rk45_error e p (spec_retry_delta e p sign max_err delta (Suc n)) sign max_err)),
                  (spec_retry_delta e p sign max_err delta (Suc n),
                   rk45_error e p (spec_retry_delta e p sign max_err delta (Suc n)) sign max_err))"
      by auto
    have "\<forall>i<Suc n. fgt (rk45_error e p (spec_retry_delta e p sign max_err delta i) sign max_err) (Fin 1)"
    proof (intro allI impI)
      fix i assume "i < Suc n"
      then show "fgt (rk45_error e p (spec_retry_delta e p sign max_err delta i) sign max_err) (Fin 1)"
        using True n(1) by (cases i) simp_all
    qed
    with n(2,3) show ?thesis by blast
  next
    case False
    with 1(2) have "r = (rk45_fifth_order e p delta sign,
                 fmul delta (spec_grow (rk45_error e p delta sign max_err)),
                 (delta, rk45_error e p delta sign max_err))"
      by (simp add: Let_def spec_factors)
    with False show ?thesis by (intro exI [of _ 0]) simp
  qed
qed

lemma advectRK45_accepts:
  "\<not> fgt (rk45_error e p (spec_retry_delta e p sign max_err delta n) sign max_err) (Fin 1)
   \<Longrightarrow> \<exists>r. advectRK45 e p delta sign max_err = Some r"
proof (induction n arbitrary: delta)
  case 0
  then show ?case by (subst advectRK45_unfold) simp
next
  case (Suc n)
  show ?case
  proof (cases "fgt (rk45_error e p delta sign max_err) (Fin 1)")
    case True
    from Suc.IH [of "fmul delta (spec_shrink (rk45_error e p delta sign max_err))"] Suc.prems
    show ?thesis using True by (subst advectRK45_unfold) simp
  next
    case False
    then show ?thesis by (subst advectRK45_unfold) simp
  qed
qed

text \<open>
  Claim C3. One pass of the loop in \<open>advectRK45\<close>: when the error estimate exceeds 1
  the call goes on from the same position with the time step multiplied by
  \<open>max(0.1, 0.9 error^-0.25)\<close>; otherwise it returns the fifth-order estimate as the
  new position and the time step multiplied by \<open>min(5.0, 0.9 error^-0.2)\<close> for the
  next call. Hence a call that returns has rejected some number \<open>n\<close> of sub-steps, all
  taken from the position it was called with, and commits the fifth-order estimate of
  the first time step whose error does not exceed 1.
\<close>

theorem advectRK45_shrink_retry_grow_commit:
  "advectRK45 e p delta sign max_err =
     (if fgt (rk45_error e p delta sign max_err) (Fin 1)
      then advectRK45 e p (fmul delta (spec_shrink (rk45_error e p delta sign max_err))) sign max_err
      else Some (rk45_fifth_order e p delta sign,
                 fmul delta (spec_grow (rk45_error e p delta sign max_err)),
                 (delta, rk45_error e p delta sign max_err)))
   \<and> (advectRK45 e p delta sign max_err = Some (p', delta', used) \<longrightarrow>
       (\<exists>n. (\<forall>i<n. fgt (rk45_error e p (spec_retry_delta e p sign max_err delta i) sign max_err) (Fin 1))
           \<and> \<not> fgt (rk45_error e p (spec_retry_delta e p sign max_err delta n) sign max_err) (Fin 1)
           \<and> p' = rk45_fifth_order e p (spec_retry_delta e p sign max_err delta n) sign
           \<and> delta' = fmul (spec_retry_delta e p sign max_err delta n)
                    (spec_grow (rk45_error e p (spec_retry_delta e p sign max_err delta n) sign max_err))
           \<and> used = (spec_retry_delta e p sign max_err delta n,
                   rk45_error e p (spec_retry_delta e p sign max_err delta n) sign max_err)))"
proof (intro conjI impI)
  show "advectRK45 e p delta sign max_err =
     (if fgt (rk45_error e p delta sign max_err) (Fin 1)
      then advectRK45 e p (fmul delta (spec_shrink (rk45_error e p delta sign max_err))) sign max_err
      else Some (rk45_fifth_order e p delta sign,
                 fmul delta (spec_grow (rk45_error e p delta sign max_err)),
                 (delta, rk45_error e p delta sign max_err)))"
    by (rule advectRK45_unfold)
next
  assume "advectRK45 e p delta sign max_err = Some (p', delta', used)"
  from advectRK45_retries [OF this]
  show "\<exists>n. (\<forall>i<n. fgt (rk45_error e p (spec_retry_delta e p sign max_err delta i) sign max_err) (Fin 1))
           \<and> \<not> fgt (rk45_error e p (spec_retry_delta e p sign max_err delta n) sign max_err) (Fin 1)
           \<and> p' = rk45_fifth_order e p (spec_retry_delta e p sign max_err delta n) sign
           \<and> delta' = fmul (spec_retry_delta e p sign max_err delta n)
                    (spec_grow (rk45_error e p (spec_retry_delta e p sign max_err delta n) sign max_err))
           \<and> used = (spec_retry_delta e p sign max_err delta n,
                   rk45_error e p (spec_retry_delta e p sign max_err delta n) sign max_err)"
    by simp
qed

lemma fmaxf_zero_not_nan: "fmaxf (Fin 0) x \<noteq> NaN"
  by (cases x) (simp_all add: fmaxf_def)

lemma fdiv_fin_not_nan: "x \<noteq> NaN \<Longrightarrow> m \<noteq> 0 \<Longrightarrow> fdiv x (Fin m) \<noteq> NaN"
  by (cases x) simp_all

lemma rk45_error_not_nan: "m \<noteq> 0 \<Longrightarrow> rk45_error e p delta sign (Fin m) \<noteq> NaN"
  by (simp add: rk45_error_def Let_def fdiv_fin_not_nan fmaxf_zero_not_nan)

lemma not_fgt_one: "x \<noteq> NaN \<Longrightarrow> \<not> fgt x (Fin 1) \<longleftrightarrow> flt x (Fin 1) \<or> feq x (Fin 1)"
  by (cases x) (auto simp: fgt_def)

text \<open>
  Claim C9. The loop of \<open>advectRK45\<close> has no bound on the number of passes: the call
  returns exactly when the error estimate of some retried time step does not exceed 1,
  however many rejections come before it; if every retried time step is rejected, the
  call never returns. For a maximum error that is a number other than zero the error
  estimate is never NaN, and not to exceed 1 is to be smaller than or equal to 1.
\<close>

theorem advectRK45_returns_iff:
  "((\<exists>r. advectRK45 e p delta sign max_err = Some r) \<longleftrightarrow>
    (\<exists>n. \<not> fgt (rk45_error e p (spec_retry_delta e p sign max_err delta n) sign max_err) (Fin 1)))
   \<and> (max_err = Fin m \<and> m \<noteq> 0 \<longrightarrow>
        (\<not> fgt (rk45_error e p d sign max_err) (Fin 1) \<longleftrightarrow>
           flt (rk45_error e p d sign max_err) (Fin 1)
           \<or> feq (rk45_error e p d sign max_err) (Fin 1)))"
proof (intro conjI impI iffI)
  assume "\<exists>r. advectRK45 e p delta sign max_err = Some r"
  then obtain r where "advectRK45 e p delta sign max_err = Some r" by blast
  from advectRK45_retries [OF this]
  show "\<exists>n. \<not> fgt (rk45_error e p (spec_retry_delta e p sign max_err delta n) sign max_err) (Fin 1)"
    by blast
next
  assume "\<exists>n. \<not> fgt (rk45_error e p (spec_retry_delta e p sign max_err delta n) sign max_err) (Fin 1)"
  then show "\<exists>r. advectRK45 e p delta sign max_err = Some r"
    using advectRK45_accepts by blast
next
  assume m: "max_err = Fin m \<and> m \<noteq> 0"
    and "\<not> fgt (rk45_error e p d sign max_err) (Fin 1)"
  then show "flt (rk45_error e p d sign max_err) (Fin 1) \<or> feq (rk45_error e p d sign max_err) (Fin 1)"
    using not_fgt_one [OF rk45_error_not_nan, of m e p d sign] by simp
next
  assume m: "max_err = Fin m \<and> m \<noteq> 0"
    and "flt (rk45_error e p d sign max_err) (Fin 1) \<or> feq (rk45_error e p d sign max_err) (Fin 1)"
  then show "\<not> fgt (rk45_error e p d sign max_err) (Fin 1)"
    using not_fgt_one [OF rk45_error_not_nan, of m e p d sign] by simp
qed

lemma texcoords_unit:
  "pos_to_texcoords env_uniform (Fin x, Fin y) = (Fin (x + 0.5), Fin (y + 0.5))"
  by (simp add: pos_to_texcoords_def env_uniform_def f2mul_def f2sub_def fsub_def)

lemma rk45_k_stall:
  "rk45_k env_stall (Fin d) (Fin 1) (Fin x, Fin y) =
     (if x = 0 \<and> y = 0 then (Fin 0, Fin d) else (Fin d, Fin d))"
  by (simp add: rk45_k_def env_stall_def texcoords_unit f2scale_def)

lemma stall_coefficients:
  assumes "0 < d"
  shows "rk45_coefficients env_stall (Fin 0, Fin 0) (Fin d) (Fin 1) =
           ((Fin 0, Fin d), (Fin d, Fin d), (Fin d, Fin d), (Fin d, Fin d), (Fin d, Fin d),
            (Fin d, Fin d))"
  using assms
  by (simp add: rk45_coefficients_def Let_def rk45_k_stall f2add_def f2scale_def cash_karp)

lemma stall_difference:
  assumes "0 < d"
  shows "rk45_difference env_stall (Fin 0, Fin 0) (Fin d) (Fin 1) = (Fin (277 / 64512 * d), Fin 0)"
proof -
  have f5: "rk45_fifth_order env_stall (Fin 0, Fin 0) (Fin d) (Fin 1) = (Fin (341 / 378 * d), Fin d)"
    by (simp add: rk45_fifth_order_def stall_coefficients [OF assms] f2add_def f2scale_def cash_karp
        algebra_simps)
  have f4: "rk45_fourth_order env_stall (Fin 0, Fin 0) (Fin d) (Fin 1)
              = (Fin (24823 / 27648 * d), Fin d)"
    by (simp add: rk45_fourth_order_def stall_coefficients [OF assms] f2add_def f2scale_def cash_karp
        algebra_simps)
  show ?thesis
    using assms by (simp add: rk45_difference_def f5 f4 f2sub_def f2abs_def fsub_def abs_if)
qed

lemma stall_scale: "rk45_scale env_stall (Fin 0, Fin 0) = (Fin 0, Fin 1)"
  by (simp add: rk45_scale_def env_stall_def texcoords_unit f2abs_def)

lemma stall_error:
  assumes "0 < d"
  shows "rk45_error env_stall (Fin 0, Fin 0) (Fin d) (Fin 1) (Fin 1) = PInf"
  using assms
  by (simp add: rk45_error_def stall_difference stall_scale Let_def fmaxf_def)

lemma stall_retry_delta:
  assumes "0 < d"
  shows "spec_retry_delta env_stall (Fin 0, Fin 0) (Fin 1) (Fin 1) (Fin d) n = Fin (d * (1 / 10) ^ n)"
  using assms
proof (induction n arbitrary: d)
  case 0
  then show ?case by simp
next
  case (Suc n)
  have "0 < d * (1 / 10)" using Suc.prems by simp
  from Suc.IH [OF this] Suc.prems show ?case
    by (simp add: stall_error spec_shrink_def fmaxf_def)
qed

text \<open>
  With the exact arithmetic of this model the loop never leaves on the field
  \<open>env_stall\<close>: every time step \<open>10^-n\<close> is rejected with an infinite error. (On
  the device the shrinking time step is rounded to zero after finitely many passes;
  rounding is outside this model.)
\<close>

lemma advectRK45_stall:
  "advectRK45 env_stall (Fin 0, Fin 0) (Fin 1) (Fin 1) (Fin 1) = None"
proof (cases "advectRK45 env_stall (Fin 0, Fin 0) (Fin 1) (Fin 1) (Fin 1)")
  case None
  then show ?thesis .
next
  case (Some r)
  have "fgt (rk45_error env_stall (Fin 0, Fin 0)
               (spec_retry_delta env_stall (Fin 0, Fin 0) (Fin 1) (Fin 1) (Fin 1) n) (Fin 1) (Fin 1))
            (Fin 1)" for n
    by (simp add: stall_retry_delta stall_error fgt_def)
  with advectRK45_retries [OF Some] show ?thesis by blast
qed

lemma rk45_k_cliff:
  "rk45_k env_cliff (Fin d) (Fin 1) (Fin x, Fin y) =
     (if y < 2 then (Fin 0, Fin d) else (Fin d, Fin d))"
  by (simp add: rk45_k_def env_cliff_def texcoords_unit f2scale_def)

lemma cliff_coefficients_10:
  "rk45_coefficients env_cliff (Fin 0, Fin 0) (Fin 10) (Fin 1) =
     ((Fin 0, Fin 10), (Fin 10, Fin 10), (Fin 10, Fin 10), (Fin 10, Fin 10), (Fin 10, Fin 10),
      (Fin 10, Fin 10))"
  by (simp add: rk45_coefficients_def Let_def rk45_k_cliff f2add_def f2scale_def cash_karp)

lemma cliff_coefficients_1:
  "rk45_coefficients env_cliff (Fin 0, Fin 0) (Fin 1) (Fin 1) =
     ((Fin 0, Fin 1), (Fin 0, Fin 1), (Fin 0, Fin 1), (Fin 0, Fin 1), (Fin 0, Fin 1),
      (Fin 0, Fin 1))"
  by (simp add: rk45_coefficients_def Let_def rk45_k_cliff f2add_def f2scale_def cash_karp)

lemma cliff_scale: "rk45_scale env_cliff (Fin 0, Fin 0) = (Fin 0, Fin 1)"
  by (simp add: rk45_scale_def env_cliff_def texcoords_unit f2abs_def)

lemma cliff_error_10: "rk45_error env_cliff (Fin 0, Fin 0) (Fin 10) (Fin 1) (Fin 1) = PInf"
  by (simp add: rk45_error_def rk45_difference_def rk45_fifth_order_def rk45_fourth_order_def
      cliff_coefficients_10 cliff_scale f2add_def f2scale_def f2sub_def f2abs_def fsub_def
      cash_karp fmaxf_def)

lemma cliff_fifth_1: "rk45_fifth_order env_cliff (Fin 0, Fin 0) (Fin 1) (Fin 1) = (Fin 0, Fin 1)"
  by (simp add: rk45_fifth_order_def cliff_coefficients_1 f2add_def f2scale_def cash_karp)

lemma cliff_error_1: "rk45_error env_cliff (Fin 0, Fin 0) (Fin 1) (Fin 1) (Fin 1) = Fin 0"
  by (simp add: rk45_error_def rk45_difference_def cliff_fifth_1 rk45_fourth_order_def
      cliff_coefficients_1 cliff_scale f2add_def f2scale_def f2sub_def f2abs_def fsub_def
      cash_karp fmaxf_def)

lemma cliff_advect:
  "advectRK45 env_cliff (Fin 0, Fin 0) (Fin 10) (Fin 1) (Fin 1)
     = Some ((Fin 0, Fin 1), Fin 5, (Fin 1, Fin 0))"
proof -
  have "advectRK45 env_cliff (Fin 0, Fin 0) (Fin 10) (Fin 1) (Fin 1)
          = advectRK45 env_cliff (Fin 0, Fin 0) (Fin 1) (Fin 1) (Fin 1)"
    by (subst advectRK45_unfold) (simp add: cliff_error_10 fgt_def spec_shrink_def fmaxf_def)
  also have "\<dots> = Some ((Fin 0, Fin 1), Fin 5, (Fin 1, Fin 0))"
    by (subst advectRK45_unfold)
       (simp add: cliff_error_1 cliff_fifth_1 fgt_def spec_grow_def fminf_def)
  finally show ?thesis .
qed

theorem advectRK45_shrink_retry_grow_commit_witness:
  "advectRK45 env_cliff (Fin 0, Fin 0) (Fin 10) (Fin 1) (Fin 1)
     = Some ((Fin 0, Fin 1), Fin 5, (Fin 1, Fin 0))
   \<and> (\<exists>n. (Fin 0, Fin 1) =
            rk45_fifth_order env_cliff (Fin 0, Fin 0)
              (spec_retry_delta env_cliff (Fin 0, Fin 0) (Fin 1) (Fin 1) (Fin 10) n) (Fin 1)
          \<and> (Fin 1, Fin 0) =
              (spec_retry_delta env_cliff (Fin 0, Fin 0) (Fin 1) (Fin 1) (Fin 10) n,
               rk45_error env_cliff (Fin 0, Fin 0)
                 (spec_retry_delta env_cliff (Fin 0, Fin 0) (Fin 1) (Fin 1) (Fin 10) n)
                 (Fin 1) (Fin 1)))"
  using advectRK45_shrink_retry_grow_commit
          [of env_cliff "(Fin 0, Fin 0)" "Fin 10" "Fin 1" "Fin 1" "(Fin 0, Fin 1)" "Fin 5"
              "(Fin 1, Fin 0)", THEN conjunct2, rule_format, OF cliff_advect]
        cliff_advect
  by blast

theorem advectRK45_returns_iff_witness:
  "(\<exists>n. \<not> fgt (rk45_error env_cliff (Fin 0, Fin 0)
                 (spec_retry_delta env_cliff (Fin 0, Fin 0) (Fin 1) (Fin 1) (Fin 10) n)
                 (Fin 1) (Fin 1))
              (Fin 1))
   \<and> flt (rk45_error env_cliff (Fin 0, Fin 0) (Fin 1) (Fin 1) (Fin 1)) (Fin 1)"
proof -
  have r: "\<exists>r. advectRK45 env_cliff (Fin 0, Fin 0) (Fin 10) (Fin 1) (Fin 1) = Some r"
    using cliff_advect by blast
  have a: "\<not> fgt (rk45_error env_cliff (Fin 0, Fin 0) (Fin 1) (Fin 1) (Fin 1)) (Fin 1)"
    by (simp add: cliff_error_1 fgt_def)
  have ne: "\<not> feq (rk45_error env_cliff (Fin 0, Fin 0) (Fin 1) (Fin 1) (Fin 1)) (Fin 1)"
    by (simp add: cliff_error_1)
  from advectRK45_returns_iff
         [of env_cliff "(Fin 0, Fin 0)" "Fin 10" "Fin 1" "Fin 1" 1 "Fin 1"] r a ne
  show ?thesis by simp
qed

text \<open>
  Claim C4, amended. The error estimate of \<open>advectRK45\<close> divides, component by
  component, the absolute difference of the fifth- and fourth-order estimates by the
  absolute value of the same component of the field at the position (there is no
  epsilon and the magnitude of the field is not used), takes the larger quotient, at
  least 0, and divides by the configured maximum error. At a position where both
  components of the field are different from zero, neither divisor is zero.
\<close>

theorem rk45_error_per_component:
  "let f5 = rk45_fifth_order e p delta sign;
       f4 = rk45_fourth_order e p delta sign;
       v = velocity e (pos_to_texcoords e p)
   in rk45_error e p delta sign max_err =
        fdiv (fmaxf (Fin 0)
                (fmaxf (fdiv (fabs (fsub (fst f5) (fst f4))) (fabs (fst v)))
                       (fdiv (fabs (fsub (snd f5) (snd f4))) (fabs (snd v)))))
             max_err
    \<and> (fst v \<noteq> Fin 0 \<and> snd v \<noteq> Fin 0 \<longrightarrow> fabs (fst v) \<noteq> Fin 0 \<and> fabs (snd v) \<noteq> Fin 0)"
proof -
  have z: "fabs a = Fin 0 \<longleftrightarrow> a = Fin 0" for a by (cases a) simp_all
  show ?thesis
    by (simp add: Let_def rk45_error_def rk45_difference_def rk45_scale_def f2abs_def f2sub_def z)
qed

lemma diagonal_coefficients:
  "rk45_coefficients env_diagonal (Fin 0, Fin 0) (Fin 1) (Fin 1) =
     ((Fin 1, Fin 2), (Fin 1, Fin 2), (Fin 1, Fin 2), (Fin 1, Fin 2), (Fin 1, Fin 2), (Fin 1, Fin 2))"
  by (simp add: rk45_coefficients_def Let_def rk45_k_def env_diagonal_def f2scale_def)

theorem rk45_error_per_component_witness:
  "velocity env_diagonal (pos_to_texcoords env_diagonal (Fin 0, Fin 0)) = (Fin 1, Fin 2)
   \<and> rk45_error env_diagonal (Fin 0, Fin 0) (Fin 1) (Fin 1) (Fin 1) = Fin 0"
proof -
  have v: "velocity env_diagonal (pos_to_texcoords env_diagonal (Fin 0, Fin 0)) = (Fin 1, Fin 2)"
    by (simp add: env_diagonal_def)
  have f5: "rk45_fifth_order env_diagonal (Fin 0, Fin 0) (Fin 1) (Fin 1) = (Fin 1, Fin 2)"
    by (simp add: rk45_fifth_order_def diagonal_coefficients f2add_def f2scale_def cash_karp)
  have f4: "rk45_fourth_order env_diagonal (Fin 0, Fin 0) (Fin 1) (Fin 1) = (Fin 1, Fin 2)"
    by (simp add: rk45_fourth_order_def diagonal_coefficients f2add_def f2scale_def cash_karp)
  from rk45_error_per_component [of env_diagonal "(Fin 0, Fin 0)" "Fin 1" "Fin 1" "Fin 1"]
  have "rk45_error env_diagonal (Fin 0, Fin 0) (Fin 1) (Fin 1) (Fin 1) = Fin 0"
    by (simp add: Let_def v f5 f4 fsub_def fmaxf_def)
  with v show ?thesis by simp
qed

text \<open>
  Claim C4 as stated fails where a component of the field is zero: the divisor is zero
  and the error estimate is infinite.
\<close>

theorem rk45_error_zero_divisor_counterexample:
  "velocity env_stall (pos_to_texcoords env_stall (Fin 0, Fin 0)) = (Fin 0, Fin 1)
   \<and> rk45_scale env_stall (Fin 0, Fin 0) = (Fin 0, Fin 1)
   \<and> rk45_difference env_stall (Fin 0, Fin 0) (Fin 1) (Fin 1) = (Fin (277 / 64512), Fin 0)
   \<and> rk45_error env_stall (Fin 0, Fin 0) (Fin 1) (Fin 1) (Fin 1) = PInf"
proof -
  have "velocity env_stall (pos_to_texcoords env_stall (Fin 0, Fin 0)) = (Fin 0, Fin 1)"
    by (simp add: env_stall_def texcoords_unit)
  then show ?thesis
    using stall_difference [of 1] stall_error [of 1] stall_scale by simp
qed

subsection \<open>Labels and distances along an integration\<close>

lemma flt_trans: "flt a b \<Longrightarrow> flt b c \<Longrightarrow> flt a c"
  by (cases a; cases b; cases c) simp_all

lemma not_increased_refl: "not_increased ld ld"
  by (simp add: not_increased_def)

lemma not_increased_trans:
  "not_increased b a \<Longrightarrow> not_increased c b \<Longrightarrow> not_increased c a"
  by (auto simp: not_increased_def intro: flt_trans)

lemma update1_not_increased: "not_increased (update_label_and_dist1 l d ld) ld"
  by (simp add: update_label_and_dist1_def not_increased_def)

lemma foldl_not_increased:
  assumes "\<And>ld k. not_increased (f ld k) ld"
  shows "not_increased (foldl f ld ks) ld"
proof (induction ks arbitrary: ld)
  case Nil
  show ?case by (simp add: not_increased_refl)
next
  case (Cons k ks)
  have "not_increased (f ld k) ld" by (rule assms)
  moreover have "not_increased (foldl f (f ld k) ks) (f ld k)" by (rule Cons.IH)
  ultimately show ?case by (simp add: not_increased_trans)
qed

lemma update_not_increased:
  assumes "\<not> shi_et_al e"
  shows "not_increased (update_label_and_dist e ncp ncl p ld) ld"
proof -
  have 1: "not_increased (foldl (update_point e p) ld [0..<nat ncp]) ld"
    by (rule foldl_not_increased) (simp add: update_point_def Let_def update1_not_increased)
  have 2: "not_increased (foldl (update_line e p) (foldl (update_point e p) ld [0..<nat ncp])
             [0..<nat ncl]) (foldl (update_point e p) ld [0..<nat ncp])"
    by (rule foldl_not_increased) (simp add: update_line_def Let_def update1_not_increased)
  from 1 2 show ?thesis
    using assms by (simp add: update_label_and_dist_def Let_def not_increased_trans)
qed

lemma kernel_step_cases:
  assumes "kernel_step e ncp ncl sign method s = Some r"
  obtains p st where "advect e method sign (pos s) (step s) = Some (p, st)"
    and "r = (let ld = (if shi_et_al e then (label s, dist s)
                     else update_label_and_dist e ncp ncl p (label s, dist s));
               s1 = s\<lparr>pos := p, step := st, label := fst ld, dist := snd ld\<rparr>
           in if feq (fst (pos s)) (fst p) \<and> feq (snd (pos s)) (snd p)
              then (if flt (stagnation_dist e ncp ncl p)
                           (fmul (Fin 0.5) (fminf (fst (cell_size e)) (snd (cell_size e))))
                    then Break (s1\<lparr>termination_code := 3\<rparr>)
                    else Break (s1\<lparr>termination_code := 2\<rparr>))
              else if outside_domain e p
              then Break (if shi_et_al e
                                then s1\<lparr>termination_code := 1, label := - 1, dist := Fin 0\<rparr>
                                else s1\<lparr>termination_code := 1\<rparr>)
              else Next s1)"
  using assms
  by (auto simp: kernel_step_def Let_def split: option.splits if_splits)

lemma kernel_step_not_increased:
  assumes "kernel_step e ncp ncl sign method s = Some r" "\<not> shi_et_al e"
  shows "not_increased (label (exit_state r), dist (exit_state r)) (label s, dist s)"
proof (rule kernel_step_cases [OF assms(1)])
  fix p st
  assume "advect e method sign (pos s) (step s) = Some (p, st)"
    and r: "r = (let ld = (if shi_et_al e then (label s, dist s)
                     else update_label_and_dist e ncp ncl p (label s, dist s));
               s1 = s\<lparr>pos := p, step := st, label := fst ld, dist := snd ld\<rparr>
           in if feq (fst (pos s)) (fst p) \<and> feq (snd (pos s)) (snd p)
              then (if flt (stagnation_dist e ncp ncl p)
                           (fmul (Fin 0.5) (fminf (fst (cell_size e)) (snd (cell_size e))))
                    then Break (s1\<lparr>termination_code := 3\<rparr>)
                    else Break (s1\<lparr>termination_code := 2\<rparr>))
              else if outside_domain e p
              then Break (if shi_et_al e
                                then s1\<lparr>termination_code := 1, label := - 1, dist := Fin 0\<rparr>
                                else s1\<lparr>termination_code := 1\<rparr>)
              else Next s1)"
  have "(label (exit_state r), dist (exit_state r))
          = update_label_and_dist e ncp ncl p (label s, dist s)"
    using assms(2) by (simp add: r Let_def)
  then show ?thesis
    using update_not_increased [OF assms(2)] by simp
qed

lemma integrate_not_increased:
  assumes "integrate e ncp ncl sign method n s = Some s'" "\<not> shi_et_al e"
  shows "not_increased (label s', dist s') (label s, dist s)"
  using assms(1)
proof (induction n arbitrary: s)
  case 0
  then show ?case by (simp add: not_increased_refl)
next
  case (Suc n)
  from Suc.prems obtain r where r: "kernel_step e ncp ncl sign method s = Some r"
    by (auto split: option.splits)
  have step: "not_increased (label (exit_state r), dist (exit_state r)) (label s, dist s)"
    using r assms(2) by (rule kernel_step_not_increased)
  show ?case
  proof (cases r)
    case (Break s1)
    with Suc.prems r have "s' = s1" by simp
    with step Break show ?thesis by simp
  next
    case (Next s1)
    with Suc.prems r have "integrate e ncp ncl sign method n s1 = Some s'" by simp
    then have "not_increased (label s', dist s') (label s1, dist s1)" by (rule Suc.IH)
    with step Next show ?thesis by (simp add: not_increased_trans)
  qed
qed

subsection \<open>Termination codes\<close>

lemma flt_fminf: "flt (fminf a b) t \<longleftrightarrow> flt a t \<or> flt b t"
  by (cases a; cases b; cases t) (auto simp: fminf_def)

lemma flt_foldl_fminf:
  "flt (foldl (\<lambda>d k. fminf d (g k)) d0 ks) t \<longleftrightarrow> flt d0 t \<or> (\<exists>k \<in> set ks. flt (g k) t)"
  by (induction ks arbitrary: d0) (auto simp: flt_fminf)

lemma stagnation_dist_within:
  "flt (stagnation_dist e ncp ncl p) t \<longleftrightarrow>
     flt FLT_MAX t
     \<or> (\<exists>k < nat ncp. flt (length_f2 (f2sub p (tex1Dfetch2 (convergence_points e) (int k)))) t)
     \<or> (\<exists>k < nat ncl. flt (distance_point_line p
                                (tex1Dfetch2 (convergence_lines e) (int k * 2 + 0))
                                (tex1Dfetch2 (convergence_lines e) (int k * 2 + 1))) t)"
proof -
  have sp: "stagnation_point e p = (\<lambda>d k. fminf d (length_f2 (f2sub p (tex1Dfetch2 (convergence_points e) (int k)))))"
    by (intro ext) (simp add: stagnation_point_def)
  have sl: "stagnation_line e p = (\<lambda>d k. fminf d (distance_point_line p
                                (tex1Dfetch2 (convergence_lines e) (int k * 2 + 0))
                                (tex1Dfetch2 (convergence_lines e) (int k * 2 + 1))))"
    by (intro ext) (simp add: stagnation_line_def)
  show ?thesis
    unfolding stagnation_dist_def sp sl flt_foldl_fminf by auto
qed

lemma kernel_step_code:
  assumes "kernel_step e ncp ncl sign method s = Some r"
  shows "(is_Break r \<and> (termination_code (exit_state r) = 1 \<or> termination_code (exit_state r) = 2
            \<or> termination_code (exit_state r) = 3))
       \<or> (\<not> is_Break r \<and> termination_code (exit_state r) = termination_code s)"
  by (rule kernel_step_cases [OF assms]) (simp add: Let_def)

lemma integrate_code:
  assumes "integrate e ncp ncl sign method n s = Some s'"
  shows "termination_code s' = termination_code s \<or> termination_code s' = 1
       \<or> termination_code s' = 2 \<or> termination_code s' = 3"
  using assms
proof (induction n arbitrary: s)
  case 0
  then show ?case by simp
next
  case (Suc n)
  from Suc.prems obtain r where r: "kernel_step e ncp ncl sign method s = Some r"
    by (auto split: option.splits)
  show ?case
  proof (cases r)
    case (Break s1)
    with Suc.prems r have "s' = s1" by simp
    with kernel_step_code [OF r] Break show ?thesis by auto
  next
    case (Next s1)
    with Suc.prems r have "integrate e ncp ncl sign method n s1 = Some s'" by simp
    from Suc.IH [OF this] kernel_step_code [OF r] Next show ?thesis by auto
  qed
qed

lemma kernel_step_advected:
  assumes adv: "advect e method sign (pos s) (step s) = Some (p, st)"
  shows "kernel_step e ncp ncl sign method s =
     (let ld = (if shi_et_al e then (label s, dist s)
                else update_label_and_dist e ncp ncl p (label s, dist s));
          s1 = s\<lparr>pos := p, step := st, label := fst ld, dist := snd ld\<rparr>
      in if feq (fst (pos s)) (fst p) \<and> feq (snd (pos s)) (snd p)
         then (if flt (stagnation_dist e ncp ncl p)
                      (fmul (Fin 0.5) (fminf (fst (cell_size e)) (snd (cell_size e))))
               then Some (Break (s1\<lparr>termination_code := 3\<rparr>))
               else Some (Break (s1\<lparr>termination_code := 2\<rparr>)))
         else if outside_domain e p
         then Some (Break (if shi_et_al e
                           then s1\<lparr>termination_code := 1, label := - 1, dist := Fin 0\<rparr>
                           else s1\<lparr>termination_code := 1\<rparr>))
         else Some (Next s1))"
  by (simp add: kernel_step_def adv Let_def)

lemma integrate_first_step_total:
  assumes adv: "advect e method sign (pos s) (step s) = Some (p, st)"
  shows "if feq (fst (pos s)) (fst p) \<and> feq (snd (pos s)) (snd p)
         then \<exists>s'. integrate e ncp ncl sign method (Suc j) s = Some s' \<and> pos s' = p \<and>
              termination_code s' =
                (if flt (stagnation_dist e ncp ncl p)
                        (fmul (Fin 0.5) (fminf (fst (cell_size e)) (snd (cell_size e))))
                 then 3 else 2)
         else if outside_domain e p
         then \<exists>s'. integrate e ncp ncl sign method (Suc j) s = Some s' \<and> pos s' = p
                  \<and> termination_code s' = 1
         else \<exists>s1. pos s1 = p \<and> termination_code s1 = termination_code s
                  \<and> integrate e ncp ncl sign method (Suc j) s = integrate e ncp ncl sign method j s1"
proof -
  define ld where "ld = (if shi_et_al e then (label s, dist s)
                     else update_label_and_dist e ncp ncl p (label s, dist s))"
  define s1 where "s1 = s\<lparr>pos := p, step := st, label := fst ld, dist := snd ld\<rparr>"
  have s1: "pos s1 = p" "termination_code s1 = termination_code s"
    by (simp_all add: s1_def)
  have ks: "kernel_step e ncp ncl sign method s =
     (if feq (fst (pos s)) (fst p) \<and> feq (snd (pos s)) (snd p)
      then (if flt (stagnation_dist e ncp ncl p)
                   (fmul (Fin 0.5) (fminf (fst (cell_size e)) (snd (cell_size e))))
            then Some (Break (s1\<lparr>termination_code := 3\<rparr>))
            else Some (Break (s1\<lparr>termination_code := 2\<rparr>)))
      else if outside_domain e p
      then Some (Break (if shi_et_al e
                        then s1\<lparr>termination_code := 1, label := - 1, dist := Fin 0\<rparr>
                        else s1\<lparr>termination_code := 1\<rparr>))
      else Some (Next s1))"
    by (simp add: kernel_step_advected [OF adv] Let_def s1_def ld_def)
  show ?thesis
  proof (cases "feq (fst (pos s)) (fst p) \<and> feq (snd (pos s)) (snd p)")
    case True
    show ?thesis
    proof (cases "flt (stagnation_dist e ncp ncl p)
                   (fmul (Fin 0.5) (fminf (fst (cell_size e)) (snd (cell_size e))))")
      case within: True
      have "kernel_step e ncp ncl sign method s = Some (Break (s1\<lparr>termination_code := 3\<rparr>))"
        by (simp only: ks True within if_True simp_thms)
      then have "integrate e ncp ncl sign method (Suc j) s = Some (s1\<lparr>termination_code := 3\<rparr>)"
        by simp
      with s1 have "\<exists>s'. integrate e ncp ncl sign method (Suc j) s = Some s' \<and> pos s' = p \<and>
              termination_code s' = 3" by simp
      then show ?thesis by (simp only: True within if_True simp_thms)
    next
      case far: False
      have "kernel_step e ncp ncl sign method s = Some (Break (s1\<lparr>termination_code := 2\<rparr>))"
        by (simp only: ks True far if_True if_False simp_thms)
      then have "integrate e ncp ncl sign method (Suc j) s = Some (s1\<lparr>termination_code := 2\<rparr>)"
        by simp
      with s1 have "\<exists>s'. integrate e ncp ncl sign method (Suc j) s = Some s' \<and> pos s' = p \<and>
              termination_code s' = 2" by simp
      then show ?thesis by (simp only: True far if_True if_False simp_thms)
    qed
  next
    case False
    show ?thesis
    proof (cases "outside_domain e p")
      case True
      have "kernel_step e ncp ncl sign method s =
              Some (Break (if shi_et_al e
                        then s1\<lparr>termination_code := 1, label := - 1, dist := Fin 0\<rparr>
                        else s1\<lparr>termination_code := 1\<rparr>))"
        by (simp only: ks False True if_True if_False simp_thms)
      then have "integrate e ncp ncl sign method (Suc j) s =
              Some (if shi_et_al e
                        then s1\<lparr>termination_code := 1, label := - 1, dist := Fin 0\<rparr>
                        else s1\<lparr>termination_code := 1\<rparr>)"
        by simp
      with s1 have "\<exists>s'. integrate e ncp ncl sign method (Suc j) s = Some s' \<and> pos s' = p
                  \<and> termination_code s' = 1" by simp
      then show ?thesis by (simp only: False True if_True if_False simp_thms)
    next
      case out: False
      have "kernel_step e ncp ncl sign method s = Some (Next s1)"
        by (simp only: ks False out if_False simp_thms)
      then have "integrate e ncp ncl sign method (Suc j) s = integrate e ncp ncl sign method j s1"
        by simp
      with s1 have "\<exists>s1. pos s1 = p \<and> termination_code s1 = termination_code s
                  \<and> integrate e ncp ncl sign method (Suc j) s = integrate e ncp ncl sign method j s1"
        by blast
      then show ?thesis by (simp only: False out if_False simp_thms)
    qed
  qed
qed

lemma advect_total:
  assumes "method \<noteq> 1"
  shows "\<exists>p st. advect e method sign q st0 = Some (p, st)"
  using assms by (simp add: advect_def)

lemma kernel_step_total:
  assumes "advect e method sign (pos s) (step s) = Some (p, st)"
  shows "\<exists>r. kernel_step e ncp ncl sign method s = Some r"
  by (simp add: kernel_step_advected [OF assms] Let_def)

lemma integrate_total:
  assumes "method \<noteq> 1"
  shows "\<exists>s'. integrate e ncp ncl sign method n s = Some s'"
proof (induction n arbitrary: s)
  case 0
  show ?case by simp
next
  case (Suc n)
  from advect_total [OF assms] obtain p st where
    "advect e method sign (pos s) (step s) = Some (p, st)" by blast
  from kernel_step_total [OF this] obtain r where r: "kernel_step e ncp ncl sign method s = Some r"
    by blast
  show ?case
  proof (cases r)
    case (Break s1)
    with r show ?thesis by simp
  next
    case (Next s1)
    with r Suc.IH [of s1] show ?thesis by simp
  qed
qed

subsection \<open>Three particles at rest\<close>

lemma texcoords_wide:
  "pos_to_texcoords env_wide (Fin x, Fin y) = (Fin (x / 2 + 0.5), Fin (y / 2 + 0.5))"
  by (simp add: pos_to_texcoords_def env_wide_def f2mul_def f2sub_def fsub_def)

lemma wide_advect:
  "advect env_wide 0 (Fin 1) (Fin 1, Fin 0) st = Some ((Fin 1, Fin 0), st)"
proof -
  have "length_f2 (velocity env_wide (pos_to_texcoords env_wide (Fin 1, Fin 0))) = Fin 0"
    by (simp add: env_wide_def length_f2_def f2dot_def)
  moreover have "is_fin (fst (time_scale env_wide))" "is_fin (Fin 1)"
    by (simp_all add: env_wide_def)
  ultimately have "advectRK4 env_wide (Fin 1, Fin 0) (fst (time_scale env_wide)) (Fin 1) = (Fin 1, Fin 0)"
    using advectRK4_still by blast
  then show ?thesis by (simp add: advect_def)
qed

lemma wide_point_distance:
  "length_f2 (f2sub (Fin 1, Fin 0) (tex1Dfetch2 (convergence_points env_wide) (int 0))) = Fin 1"
  by (simp add: env_wide_def tex1Dfetch2_def f2sub_def fsub_def length_f2_def f2dot_def)

lemma wide_update_first:
  "update_label_and_dist env_wide 1 0 (Fin 1, Fin 0) (- 1, FLT_MAX) = (7, Fin 1)"
proof -
  have "update_point env_wide (Fin 1, Fin 0) (- 1, FLT_MAX) 0 = (7, Fin 1)"
    using wide_point_distance
    by (simp add: update_point_def Let_def update_label_and_dist1_def FLT_MAX_def
        tex1Dfetch_def env_wide_def float_trunc_def int_to_short_def)
  then show ?thesis
    by (simp add: update_label_and_dist_def Let_def env_wide_def)
qed

lemma wide_update_again:
  "update_label_and_dist env_wide 1 0 (Fin 1, Fin 0) (7, Fin 1) = (7, Fin 1)"
proof -
  have "update_point env_wide (Fin 1, Fin 0) (7, Fin 1) 0 = (7, Fin 1)"
    using wide_point_distance
    by (simp add: update_point_def Let_def update_label_and_dist1_def)
  then show ?thesis
    by (simp add: update_label_and_dist_def Let_def env_wide_def)
qed

lemma wide_stagnation: "stagnation_dist env_wide 1 0 (Fin 1, Fin 0) = Fin 1"
  using wide_point_distance
  by (simp add: stagnation_dist_def stagnation_point_def fminf_def FLT_MAX_def)

lemma wide_step:
  "kernel_step env_wide 1 0 (Fin 1) 0 state_wide = Some (Break (state_wide\<lparr>termination_code := 2\<rparr>))"
proof -
  have a: "advect env_wide 0 (Fin 1) (pos state_wide) (step state_wide) = Some ((Fin 1, Fin 0), Fin 0.5)"
    by (simp add: state_wide_def wide_advect)
  have ns: "\<not> shi_et_al env_wide" by (simp add: env_wide_def)
  have thr: "fmul (Fin (1 / 2)) (fminf (fst (cell_size env_wide)) (snd (cell_size env_wide))) = Fin 1"
    by (simp add: env_wide_def fminf_def)
  show ?thesis
    unfolding kernel_step_def Let_def a
    by (simp add: ns wide_update_again wide_stagnation thr)
       (simp add: state_wide_def wide_update_again)
qed

lemma wide_integrate:
  "integrate env_wide 1 0 (Fin 1) 0 (Suc 0) state_wide = Some (state_wide\<lparr>termination_code := 2\<rparr>)"
  by (simp add: wide_step)

lemma kernel_particle_active:
  assumes "feq t (Fin 0)" "\<not> shi_et_al e"
  shows "kernel_particle e ncp ncl sign num_steps method (p, l, d, t) =
     (case integrate e ncp ncl sign method (nat num_steps)
             \<lparr>pos = p, step = fmul (fst (time_scale e)) (rk4_step e (pos_to_texcoords e p)),
              label = fst (update_label_and_dist e ncp ncl p (float_to_short l, d)),
              dist = snd (update_label_and_dist e ncp ncl p (float_to_short l, d)),
              termination_code = float_to_short t\<rparr> of
        None \<Rightarrow> None
      | Some s \<Rightarrow> Some (pos s, short_to_float (label s), dist s, short_to_float (termination_code s)))"
  using assms by (simp add: kernel_particle_def Let_def split: option.splits)

lemma kernel_particle_active_shi:
  assumes "feq t (Fin 0)" "shi_et_al e"
  shows "kernel_particle e ncp ncl sign num_steps method (p, l, d, t) =
     (case integrate e ncp ncl sign method (nat num_steps)
             \<lparr>pos = p, step = fmul (fst (time_scale e)) (rk4_step e (pos_to_texcoords e p)),
              label = float_to_short l, dist = d, termination_code = float_to_short t\<rparr> of
        None \<Rightarrow> None
      | Some s \<Rightarrow>
          Some (pos s,
                short_to_float (fst (update_label_and_dist e ncp ncl (pos s) (label s, dist s))),
                snd (update_label_and_dist e ncp ncl (pos s) (label s, dist s)),
                short_to_float (termination_code s)))"
  using assms by (simp add: kernel_particle_def Let_def split: option.splits)

lemma float_to_short_values:
  "float_to_short (Fin (- 1)) = - 1" "float_to_short (Fin 0) = 0" "float_to_short (Fin 5) = 5"
proof -
  have "\<lceil>- 1 :: real\<rceil> = - 1" by (rule ceiling_unique) simp_all
  then show "float_to_short (Fin (- 1)) = - 1" by (simp add: float_trunc_def)
  show "float_to_short (Fin 0) = 0" "float_to_short (Fin 5) = 5"
    by (simp_all add: float_trunc_def)
qed

lemma wide_particle:
  "kernel_particle env_wide 1 0 (Fin 1) 1 0 ((Fin 1, Fin 0), Fin (- 1), FLT_MAX, Fin 0)
     = Some ((Fin 1, Fin 0), Fin 7, Fin 1, Fin 2)"
proof -
  have s0: "\<lparr>pos = (Fin 1, Fin 0),
             step = fmul (fst (time_scale env_wide))
                      (rk4_step env_wide (pos_to_texcoords env_wide (Fin 1, Fin 0))),
             label = fst (update_label_and_dist env_wide 1 0 (Fin 1, Fin 0)
                            (float_to_short (Fin (- 1)), FLT_MAX)),
             dist = snd (update_label_and_dist env_wide 1 0 (Fin 1, Fin 0)
                            (float_to_short (Fin (- 1)), FLT_MAX)),
             termination_code = float_to_short (Fin 0)\<rparr> = state_wide"
    by (simp only: float_to_short_values wide_update_first fst_conv snd_conv)
       (simp add: state_wide_def env_wide_def)
  have "kernel_particle env_wide 1 0 (Fin 1) 1 0 ((Fin 1, Fin 0), Fin (- 1), FLT_MAX, Fin 0)
          = (case integrate env_wide 1 0 (Fin 1) 0 (nat 1) state_wide of
               None \<Rightarrow> None
             | Some s \<Rightarrow> Some (pos s, short_to_float (label s), dist s,
                              short_to_float (termination_code s)))"
    unfolding s0 [symmetric] by (rule kernel_particle_active) (simp_all add: env_wide_def)
  also have "nat 1 = Suc 0" by simp
  finally show ?thesis
    by (simp only: wide_integrate option.case) (simp add: state_wide_def short_to_float_def)
qed

lemma advect_still:
  assumes "length_f2 (velocity e (pos_to_texcoords e p)) = Fin 0"
    and "is_fin (fst (time_scale e))" "is_fin sign"
  shows "advect e 0 sign p st = Some (p, st)"
proof -
  have "advectRK4 e p (fst (time_scale e)) sign = p"
    using advectRK4_still [OF assms] by simp
  then show ?thesis by (simp add: advect_def)
qed

lemma kernel_step_stagnant:
  assumes adv: "advect e method sign (pos s) (step s) = Some (pos s, st)"
    and same: "feq (fst (pos s)) (fst (pos s))" "feq (snd (pos s)) (snd (pos s))"
    and ld: "(if shi_et_al e then (label s, dist s)
              else update_label_and_dist e ncp ncl (pos s) (label s, dist s)) = (l, d)"
    and far: "\<not> flt (stagnation_dist e ncp ncl (pos s))
                   (fmul (Fin 0.5) (fminf (fst (cell_size e)) (snd (cell_size e))))"
  shows "kernel_step e ncp ncl sign method s =
           Some (Break (s\<lparr>pos := pos s, step := st, label := l, dist := d, termination_code := 2\<rparr>))"
  using same far ld
  by (cases "shi_et_al e") (simp_all add: kernel_step_def Let_def adv)

lemma zero_outside_step:
  "kernel_step env_zero 0 0 (Fin 1) 0 state_outside
     = Some (Break (state_outside\<lparr>termination_code := 2\<rparr>))"
proof -
  have p: "pos state_outside = (Fin 3, Fin 0)" by (simp add: state_outside_def)
  have "advect env_zero 0 (Fin 1) (pos state_outside) (step state_outside)
          = Some (pos state_outside, step state_outside)"
    by (rule advect_still) (simp_all add: env_zero_def env_uniform_def length_f2_def f2dot_def)
  moreover have "feq (fst (pos state_outside)) (fst (pos state_outside))"
    "feq (snd (pos state_outside)) (snd (pos state_outside))"
    by (simp_all add: p)
  moreover have "(if shi_et_al env_zero then (label state_outside, dist state_outside)
              else update_label_and_dist env_zero 0 0 (pos state_outside)
                     (label state_outside, dist state_outside))
            = (label state_outside, dist state_outside)"
    by (simp add: update_label_and_dist_def env_zero_def env_uniform_def)
  moreover have "\<not> flt (stagnation_dist env_zero 0 0 (pos state_outside))
                   (fmul (Fin 0.5) (fminf (fst (cell_size env_zero)) (snd (cell_size env_zero))))"
    by (simp add: stagnation_dist_def FLT_MAX_def env_zero_def env_uniform_def fminf_def)
  ultimately have "kernel_step env_zero 0 0 (Fin 1) 0 state_outside =
     Some (Break (state_outside\<lparr>pos := pos state_outside, step := step state_outside,
       label := label state_outside, dist := dist state_outside, termination_code := 2\<rparr>))"
    by (rule kernel_step_stagnant)
  then show ?thesis by simp
qed

lemma zero_outside_particle:
  "kernel_particle env_zero 0 0 (Fin 1) 1 0 ((Fin 3, Fin 0), Fin (- 1), FLT_MAX, Fin 0)
     = Some ((Fin 3, Fin 0), Fin (- 1), FLT_MAX, Fin 2)"
proof -
  have u: "update_label_and_dist env_zero 0 0 (Fin 3, Fin 0) (- 1, FLT_MAX) = (- 1, FLT_MAX)"
    by (simp add: update_label_and_dist_def env_zero_def env_uniform_def)
  have s0: "\<lparr>pos = (Fin 3, Fin 0),
             step = fmul (fst (time_scale env_zero))
                      (rk4_step env_zero (pos_to_texcoords env_zero (Fin 3, Fin 0))),
             label = fst (update_label_and_dist env_zero 0 0 (Fin 3, Fin 0)
                            (float_to_short (Fin (- 1)), FLT_MAX)),
             dist = snd (update_label_and_dist env_zero 0 0 (Fin 3, Fin 0)
                            (float_to_short (Fin (- 1)), FLT_MAX)),
             termination_code = float_to_short (Fin 0)\<rparr> = state_outside"
    by (simp only: float_to_short_values u fst_conv snd_conv)
       (simp add: state_outside_def env_zero_def env_uniform_def)
  have "kernel_particle env_zero 0 0 (Fin 1) 1 0 ((Fin 3, Fin 0), Fin (- 1), FLT_MAX, Fin 0)
          = (case integrate env_zero 0 0 (Fin 1) 0 (nat 1) state_outside of
               None \<Rightarrow> None
             | Some s \<Rightarrow> Some (pos s, short_to_float (label s), dist s,
                              short_to_float (termination_code s)))"
    unfolding s0 [symmetric]
    by (rule kernel_particle_active) (simp_all add: env_zero_def env_uniform_def)
  also have "nat 1 = Suc 0" by simp
  finally show ?thesis
    by (simp only: integrate.simps zero_outside_step option.case loop_exit.case)
       (simp add: state_outside_def short_to_float_def)
qed

lemma shi_point_distance:
  "length_f2 (f2sub (Fin 0, Fin 0) (tex1Dfetch2 (convergence_points env_shi) (int 0))) = Fin 1"
  by (simp add: env_shi_def tex1Dfetch2_def f2sub_def fsub_def length_f2_def f2dot_def)

lemma shi_step:
  "kernel_step env_shi 1 0 (Fin 1) 0 state_shi = Some (Break (state_shi\<lparr>termination_code := 2\<rparr>))"
proof -
  have p: "pos state_shi = (Fin 0, Fin 0)" by (simp add: state_shi_def)
  have "advect env_shi 0 (Fin 1) (pos state_shi) (step state_shi)
          = Some (pos state_shi, step state_shi)"
    by (rule advect_still)
       (simp_all add: env_shi_def env_zero_def env_uniform_def length_f2_def f2dot_def)
  moreover have "feq (fst (pos state_shi)) (fst (pos state_shi))"
    "feq (snd (pos state_shi)) (snd (pos state_shi))"
    by (simp_all add: p)
  moreover have "(if shi_et_al env_shi then (label state_shi, dist state_shi)
              else update_label_and_dist env_shi 1 0 (pos state_shi)
                     (label state_shi, dist state_shi))
            = (label state_shi, dist state_shi)"
    by (simp add: env_shi_def)
  moreover have "\<not> flt (stagnation_dist env_shi 1 0 (pos state_shi))
                   (fmul (Fin 0.5) (fminf (fst (cell_size env_shi)) (snd (cell_size env_shi))))"
    using shi_point_distance
    by (simp add: p stagnation_dist_def stagnation_point_def FLT_MAX_def fminf_def)
       (simp add: env_shi_def env_zero_def env_uniform_def)
  ultimately have "kernel_step env_shi 1 0 (Fin 1) 0 state_shi =
     Some (Break (state_shi\<lparr>pos := pos state_shi, step := step state_shi,
       label := label state_shi, dist := dist state_shi, termination_code := 2\<rparr>))"
    by (rule kernel_step_stagnant)
  then show ?thesis by simp
qed

lemma shi_final_update:
  "update_label_and_dist env_shi 1 0 (Fin 0, Fin 0) (5, Fin 0.5) = (7, Fin 1)"
proof -
  have "update_point env_shi (Fin 0, Fin 0) (- 1, FLT_MAX) 0 = (7, Fin 1)"
    using shi_point_distance
    by (simp add: update_point_def Let_def update_label_and_dist1_def FLT_MAX_def
        tex1Dfetch_def env_shi_def float_trunc_def int_to_short_def)
  then show ?thesis
    by (simp add: update_label_and_dist_def Let_def) (simp add: env_shi_def)
qed

lemma shi_particle:
  "kernel_particle env_shi 1 0 (Fin 1) 1 0 ((Fin 0, Fin 0), Fin 5, Fin 0.5, Fin 0)
     = Some ((Fin 0, Fin 0), Fin 7, Fin 1, Fin 2)"
proof -
  have s0: "\<lparr>pos = (Fin 0, Fin 0),
             step = fmul (fst (time_scale env_shi))
                      (rk4_step env_shi (pos_to_texcoords env_shi (Fin 0, Fin 0))),
             label = float_to_short (Fin 5), dist = Fin 0.5,
             termination_code = float_to_short (Fin 0)\<rparr> = state_shi"
    by (simp only: float_to_short_values)
       (simp add: state_shi_def env_shi_def env_zero_def env_uniform_def)
  have "kernel_particle env_shi 1 0 (Fin 1) 1 0 ((Fin 0, Fin 0), Fin 5, Fin 0.5, Fin 0)
          = (case integrate env_shi 1 0 (Fin 1) 0 (nat 1) state_shi of
               None \<Rightarrow> None
             | Some s \<Rightarrow>
                 Some (pos s,
                   short_to_float (fst (update_label_and_dist env_shi 1 0 (pos s) (label s, dist s))),
                   snd (update_label_and_dist env_shi 1 0 (pos s) (label s, dist s)),
                   short_to_float (termination_code s)))"
    unfolding s0 [symmetric]
    by (rule kernel_particle_active_shi) (simp_all add: env_shi_def)
  also have "nat 1 = Suc 0" by simp
  finally have "kernel_particle env_shi 1 0 (Fin 1) 1 0 ((Fin 0, Fin 0), Fin 5, Fin 0.5, Fin 0)
     = Some (pos (state_shi\<lparr>termination_code := 2\<rparr>),
          short_to_float (fst (update_label_and_dist env_shi 1 0 (pos (state_shi\<lparr>termination_code := 2\<rparr>))
             (label (state_shi\<lparr>termination_code := 2\<rparr>), dist (state_shi\<lparr>termination_code := 2\<rparr>)))),
          snd (update_label_and_dist env_shi 1 0 (pos (state_shi\<lparr>termination_code := 2\<rparr>))
             (label (state_shi\<lparr>termination_code := 2\<rparr>), dist (state_shi\<lparr>termination_code := 2\<rparr>))),
          short_to_float (termination_code (state_shi\<lparr>termination_code := 2\<rparr>)))"
    by (simp only: integrate.simps shi_step option.case loop_exit.case)
  moreover have "pos (state_shi\<lparr>termination_code := 2\<rparr>) = (Fin 0, Fin 0)"
    "label (state_shi\<lparr>termination_code := 2\<rparr>) = 5"
    "dist (state_shi\<lparr>termination_code := 2\<rparr>) = Fin 0.5"
    "termination_code (state_shi\<lparr>termination_code := 2\<rparr>) = 2"
    by (simp_all add: state_shi_def)
  ultimately show ?thesis
    by (simp only: shi_final_update fst_conv snd_conv) (simp add: short_to_float_def)
qed

lemma near_stagnation: "stagnation_dist env_wide 1 0 (Fin 1, Fin 1) = Fin 0"
  by (simp add: stagnation_dist_def stagnation_point_def fminf_def FLT_MAX_def env_wide_def
      tex1Dfetch2_def f2sub_def fsub_def length_f2_def f2dot_def)

lemma wide_threshold:
  "fmul (Fin (1 / 2)) (fminf (fst (cell_size env_wide)) (snd (cell_size env_wide))) = Fin 1"
  by (simp add: env_wide_def fminf_def)

lemma near_advect:
  "advect env_wide 0 (Fin 1) (pos state_near) (step state_near) = Some ((Fin 1, Fin 1), Fin 0.5)"
proof -
  have "advect env_wide 0 (Fin 1) (Fin 1, Fin 1) (Fin 0.5) = Some ((Fin 1, Fin 1), Fin 0.5)"
    by (rule advect_still) (simp_all add: env_wide_def length_f2_def f2dot_def)
  then show ?thesis by (simp add: state_near_def)
qed

lemma uniform_steps: "steps_per_cell env_uniform q = Fin 1"
  by (simp add: steps_per_cell_def length_f2_def f2dot_def fgt_def fminf_def env_uniform_def)

lemma uniform_advectRK4:
  "advectRK4 env_uniform (Fin x, Fin y) (Fin (1 / 2)) (Fin 1) = (Fin (x + 1 / 2), Fin y)"
  by (simp add: advectRK4_unfold Let_def uniform_steps f2scale_def f2add_def)
     (simp add: env_uniform_def f2scale_def f2add_def)

lemma uniform_advect:
  "advect env_uniform 0 (Fin 1) (Fin x, Fin y) st = Some ((Fin (x + 1 / 2), Fin y), st)"
proof -
  have "fst (time_scale env_uniform) = Fin 0.5" by (simp add: env_uniform_def)
  then show ?thesis by (simp add: advect_def uniform_advectRK4)
qed

lemma uniform_outside: "outside_domain env_uniform (Fin x, Fin y) \<longleftrightarrow> x < 0 \<or> 1 < x \<or> y < 0 \<or> 1 < y"
  by (simp add: outside_domain_def env_uniform_def f2mul_def f2sub_def fsub_def fgt_def)

text \<open>
  Claim C1, amended. Given the position that the advection of one integration step
  returns: if it is numerically identical to the previous position, the integration
  returns at once, with termination code 3 when the distance to the nearest convergence
  structure is smaller than half of the smaller cell side, and with code 2 otherwise;
  if the position has changed and, transformed to \<open>[0,1]^2\<close>, lies outside that
  square, the integration returns at once with code 1; otherwise the integration is
  that of the remaining steps, from the new position and with the code unchanged. The
  distance to the nearest structure is smaller than a bound exactly when the distance
  to some convergence point or line segment is (or the bound exceeds \<open>FLT_MAX\<close>).
  With the fixed-step integrator the integration always returns; whenever it returns,
  the final code is the initial one, or 1, 2 or 3; an exhausted budget leaves the
  state, and so the code 0, as it is.
\<close>

theorem termination_classification:
  assumes "advect e method sign (pos s) (step s) = Some (p, st)"
  shows "(if feq (fst (pos s)) (fst p) \<and> feq (snd (pos s)) (snd p)
          then \<exists>s'. integrate e ncp ncl sign method (Suc j) s = Some s' \<and> pos s' = p \<and>
               termination_code s' =
                 (if flt (stagnation_dist e ncp ncl p)
                         (fmul (Fin 0.5) (fminf (fst (cell_size e)) (snd (cell_size e))))
                  then 3 else 2)
          else if outside_domain e p
          then \<exists>s'. integrate e ncp ncl sign method (Suc j) s = Some s' \<and> pos s' = p
                   \<and> termination_code s' = 1
          else \<exists>s1. pos s1 = p \<and> termination_code s1 = termination_code s
                   \<and> integrate e ncp ncl sign method (Suc j) s
                       = integrate e ncp ncl sign method j s1)
       \<and> (flt (stagnation_dist e ncp ncl p) t \<longleftrightarrow>
            flt FLT_MAX t
            \<or> (\<exists>k < nat ncp. flt (length_f2 (f2sub p (tex1Dfetch2 (convergence_points e) (int k)))) t)
            \<or> (\<exists>k < nat ncl. flt (distance_point_line p
                                (tex1Dfetch2 (convergence_lines e) (int k * 2 + 0))
                                (tex1Dfetch2 (convergence_lines e) (int k * 2 + 1))) t))
       \<and> (method \<noteq> 1 \<longrightarrow> (\<exists>s'. integrate e ncp ncl sign method n s = Some s'))
       \<and> (\<forall>s'. integrate e ncp ncl sign method n s = Some s' \<longrightarrow>
             termination_code s' = termination_code s \<or> termination_code s' = 1
             \<or> termination_code s' = 2 \<or> termination_code s' = 3)
       \<and> integrate e ncp ncl sign method 0 s = Some s"
proof (intro conjI impI allI)
  show "if feq (fst (pos s)) (fst p) \<and> feq (snd (pos s)) (snd p)
          then \<exists>s'. integrate e ncp ncl sign method (Suc j) s = Some s' \<and> pos s' = p \<and>
               termination_code s' =
                 (if flt (stagnation_dist e ncp ncl p)
                         (fmul (Fin 0.5) (fminf (fst (cell_size e)) (snd (cell_size e))))
                  then 3 else 2)
          else if outside_domain e p
          then \<exists>s'. integrate e ncp ncl sign method (Suc j) s = Some s' \<and> pos s' = p
                   \<and> termination_code s' = 1
          else \<exists>s1. pos s1 = p \<and> termination_code s1 = termination_code s
                   \<and> integrate e ncp ncl sign method (Suc j) s
                       = integrate e ncp ncl sign method j s1"
    using assms by (rule integrate_first_step_total)
next
  show "flt (stagnation_dist e ncp ncl p) t \<longleftrightarrow>
            flt FLT_MAX t
            \<or> (\<exists>k < nat ncp. flt (length_f2 (f2sub p (tex1Dfetch2 (convergence_points e) (int k)))) t)
            \<or> (\<exists>k < nat ncl. flt (distance_point_line p
                                (tex1Dfetch2 (convergence_lines e) (int k * 2 + 0))
                                (tex1Dfetch2 (convergence_lines e) (int k * 2 + 1))) t)"
    by (rule stagnation_dist_within)
next
  assume "method \<noteq> 1"
  then show "\<exists>s'. integrate e ncp ncl sign method n s = Some s'" by (rule integrate_total)
next
  fix s' assume "integrate e ncp ncl sign method n s = Some s'"
  then show "termination_code s' = termination_code s \<or> termination_code s' = 1
             \<or> termination_code s' = 2 \<or> termination_code s' = 3"
    by (rule integrate_code)
next
  show "integrate e ncp ncl sign method 0 s = Some s" by simp
qed

theorem termination_classification_witness:
  "(\<exists>s'. integrate env_wide 1 0 (Fin 1) 0 (Suc 0) state_wide = Some s'
         \<and> pos s' = (Fin 1, Fin 0) \<and> termination_code s' = 2)
   \<and> (\<exists>s'. integrate env_wide 1 0 (Fin 1) 0 (Suc 0) state_near = Some s'
         \<and> pos s' = (Fin 1, Fin 1) \<and> termination_code s' = 3)
   \<and> (\<exists>s'. integrate env_uniform 0 0 (Fin 1) 0 (Suc 0) state_leaving = Some s'
         \<and> pos s' = (Fin 1.25, Fin 0) \<and> termination_code s' = 1)
   \<and> (\<exists>s'. integrate env_uniform 0 0 (Fin 1) 0 (Suc 0) state_origin = Some s'
         \<and> pos s' = (Fin 0.5, Fin 0) \<and> termination_code s' = 0)"
proof (intro conjI)
  have a: "advect env_wide 0 (Fin 1) (pos state_wide) (step state_wide) = Some ((Fin 1, Fin 0), Fin 0.5)"
    by (simp add: state_wide_def wide_advect)
  have p: "pos state_wide = (Fin 1, Fin 0)" by (simp add: state_wide_def)
  from termination_classification [OF a, of 1 0 0 "Fin 1" 0, THEN conjunct1]
  show "\<exists>s'. integrate env_wide 1 0 (Fin 1) 0 (Suc 0) state_wide = Some s'
         \<and> pos s' = (Fin 1, Fin 0) \<and> termination_code s' = 2"
    by (simp add: p wide_stagnation wide_threshold)
next
  have p: "pos state_near = (Fin 1, Fin 1)" by (simp add: state_near_def)
  from termination_classification [OF near_advect, of 1 0 0 "Fin 1" 0, THEN conjunct1]
  show "\<exists>s'. integrate env_wide 1 0 (Fin 1) 0 (Suc 0) state_near = Some s'
         \<and> pos s' = (Fin 1, Fin 1) \<and> termination_code s' = 3"
    by (simp add: p near_stagnation wide_threshold)
next
  have a: "advect env_uniform 0 (Fin 1) (pos state_leaving) (step state_leaving)
             = Some ((Fin 1.25, Fin 0), Fin 0.5)"
    using uniform_advect [of "3 / 4" 0 "Fin (1 / 2)"] by (simp add: state_leaving_def)
  have p: "pos state_leaving = (Fin 0.75, Fin 0)" by (simp add: state_leaving_def)
  from termination_classification [OF a, of 0 0 0 "Fin 1" 0, THEN conjunct1]
  show "\<exists>s'. integrate env_uniform 0 0 (Fin 1) 0 (Suc 0) state_leaving = Some s'
         \<and> pos s' = (Fin 1.25, Fin 0) \<and> termination_code s' = 1"
    by (simp add: p uniform_outside)
next
  have a: "advect env_uniform 0 (Fin 1) (pos state_origin) (step state_origin)
             = Some ((Fin 0.5, Fin 0), Fin 0.5)"
    using uniform_advect [of 0 0 "Fin (1 / 2)"] by (simp add: state_origin_def)
  have p: "pos state_origin = (Fin 0, Fin 0)" "termination_code state_origin = 0"
    by (simp_all add: state_origin_def)
  from termination_classification [OF a, of 0 0 0 "Fin 1" 0, THEN conjunct1]
  have "\<exists>s1. pos s1 = (Fin 0.5, Fin 0) \<and> termination_code s1 = 0
          \<and> integrate env_uniform 0 0 (Fin 1) 0 (Suc 0) state_origin
              = integrate env_uniform 0 0 (Fin 1) 0 0 s1"
    by (simp add: p uniform_outside)
  then show "\<exists>s'. integrate env_uniform 0 0 (Fin 1) 0 (Suc 0) state_origin = Some s'
         \<and> pos s' = (Fin 0.5, Fin 0) \<and> termination_code s' = 0"
    by (simp only: integrate.simps) blast
qed

text \<open>
  Claim C1 as stated fails twice. With a cell of \<open>2 x 2\<close> a particle resting at
  distance 1 from a convergence point is within half a cell diagonal of it and still
  gets the code 2. A particle resting outside the square gets the code 2, not 1: the
  test for an unchanged position comes first.
\<close>

theorem termination_classification_counterexample:
  "kernel_particle env_wide 1 0 (Fin 1) 1 0 ((Fin 1, Fin 0), Fin (- 1), FLT_MAX, Fin 0)
     = Some ((Fin 1, Fin 0), Fin 7, Fin 1, Fin 2)
   \<and> flt (length_f2 (f2sub (Fin 1, Fin 0) (tex1Dfetch2 (convergence_points env_wide) 0)))
          (fmul (Fin 0.5) (length_f2 (cell_size env_wide)))
   \<and> kernel_particle env_zero 0 0 (Fin 1) 1 0 ((Fin 3, Fin 0), Fin (- 1), FLT_MAX, Fin 0)
     = Some ((Fin 3, Fin 0), Fin (- 1), FLT_MAX, Fin 2)
   \<and> outside_domain env_zero (Fin 3, Fin 0)"
proof -
  have "(2::real)\<^sup>2 < 8" by simp
  then have "2 < sqrt 8" by (rule real_less_rsqrt)
  then have "flt (length_f2 (f2sub (Fin 1, Fin 0) (tex1Dfetch2 (convergence_points env_wide) 0)))
          (fmul (Fin 0.5) (length_f2 (cell_size env_wide)))"
    using wide_point_distance by (simp add: env_wide_def length_f2_def f2dot_def)
  moreover have "outside_domain env_zero (Fin 3, Fin 0)"
    by (simp add: outside_domain_def env_zero_def env_uniform_def f2mul_def f2sub_def fsub_def
        fgt_def)
  ultimately show ?thesis
    using wide_particle zero_outside_particle by simp
qed

text \<open>
  Claim C2, amended. When the kernel is built without the Shi et al. mode, the recorded
  pair of label and distance after any number of integration steps is the pair before
  them or has a strictly smaller distance, and so is the pair after one scan of the
  convergence structures; a single comparison overwrites label and distance exactly
  when the new distance (the Euclidean distance to a convergence point, the
  point-to-segment distance to a line segment) is strictly smaller than the recorded one.
\<close>

theorem distance_label_monotonic:
  assumes "\<not> shi_et_al e" and "integrate e ncp ncl sign method n s = Some s'"
  shows "not_increased (label s', dist s') (label s, dist s)
       \<and> not_increased (update_label_and_dist e ncp ncl p ld) ld
       \<and> update_label_and_dist1 l dc ld = (if flt dc (snd ld) then (int_to_short l, dc) else ld)
       \<and> update_point e p ld k =
           update_label_and_dist1 (float_to_int (tex1Dfetch (point_ids e) (int k)))
             (length_f2 (f2sub p (tex1Dfetch2 (convergence_points e) (int k)))) ld
       \<and> update_line e p ld k =
           update_label_and_dist1 (float_to_int (tex1Dfetch (line_ids e) (int k)))
             (distance_point_line p (tex1Dfetch2 (convergence_lines e) (int k * 2 + 0))
                (tex1Dfetch2 (convergence_lines e) (int k * 2 + 1))) ld"
  using integrate_not_increased [OF assms(2,1)] update_not_increased [OF assms(1)]
  by (simp add: update_label_and_dist1_def update_point_def update_line_def Let_def)

lemma fresh_integrate:
  "integrate env_wide 1 0 (Fin 1) 0 (Suc 0) state_fresh = Some (state_wide\<lparr>termination_code := 2\<rparr>)"
proof -
  have p: "pos state_fresh = (Fin 1, Fin 0)" by (simp add: state_fresh_def)
  have "advect env_wide 0 (Fin 1) (pos state_fresh) (step state_fresh)
          = Some (pos state_fresh, step state_fresh)"
    by (simp add: p wide_advect)
  moreover have "feq (fst (pos state_fresh)) (fst (pos state_fresh))"
    "feq (snd (pos state_fresh)) (snd (pos state_fresh))"
    by (simp_all add: p)
  moreover have "(if shi_et_al env_wide then (label state_fresh, dist state_fresh)
              else update_label_and_dist env_wide 1 0 (pos state_fresh)
                     (label state_fresh, dist state_fresh))
            = (7, Fin 1)"
    using wide_update_first by (simp add: state_fresh_def env_wide_def)
  moreover have "\<not> flt (stagnation_dist env_wide 1 0 (pos state_fresh))
                   (fmul (Fin 0.5) (fminf (fst (cell_size env_wide)) (snd (cell_size env_wide))))"
    by (simp add: p wide_stagnation) (simp add: env_wide_def fminf_def)
  ultimately have "kernel_step env_wide 1 0 (Fin 1) 0 state_fresh =
     Some (Break (state_fresh\<lparr>pos := pos state_fresh, step := step state_fresh,
       label := 7, dist := Fin 1, termination_code := 2\<rparr>))"
    by (rule kernel_step_stagnant)
  then show ?thesis by (simp add: state_fresh_def state_wide_def)
qed

theorem distance_label_monotonic_witness:
  "\<not> shi_et_al env_wide
   \<and> integrate env_wide 1 0 (Fin 1) 0 (Suc 0) state_fresh = Some (state_wide\<lparr>termination_code := 2\<rparr>)
   \<and> not_increased (7, Fin 1) (- 1, FLT_MAX)"
proof -
  have ns: "\<not> shi_et_al env_wide" by (simp add: env_wide_def)
  from distance_label_monotonic [OF ns fresh_integrate]
  have "not_increased (7, Fin 1) (- 1, FLT_MAX)"
    by (simp add: state_wide_def state_fresh_def)
  with ns fresh_integrate show ?thesis by simp
qed

text \<open>
  Claim C2 as stated fails in the Shi et al. mode: the scan starts from the label -1
  and the distance \<open>FLT_MAX\<close>, so a particle recorded with label 5 at distance 0.5
  leaves the kernel with label 7 at distance 1.
\<close>

theorem distance_label_monotonic_counterexample:
  "shi_et_al env_shi
   \<and> update_label_and_dist env_shi 1 0 (Fin 0, Fin 0) (5, Fin 0.5) = (7, Fin 1)
   \<and> kernel_particle env_shi 1 0 (Fin 1) 1 0 ((Fin 0, Fin 0), Fin 5, Fin 0.5, Fin 0)
       = Some ((Fin 0, Fin 0), Fin 7, Fin 1, Fin 2)
   \<and> flt (Fin 0.5) (Fin 1)"
  using shi_final_update shi_particle by (simp add: env_shi_def)

subsection \<open>The fixed step against the specification\<close>

lemma steps_per_cell_rk4_step [simp]:
  "steps_per_cell (e\<lparr>rk4_step := r\<rparr>) = steps_per_cell e"
  by (intro ext) (simp add: steps_per_cell_def pos_to_texcoords_def)

text \<open>
  Claim C5, amended. One fixed step returns \<open>pos + (k1 + 2 k2 + 2 k3 + k4) / 6\<close>.
  It reads the velocity texture five times: once at \<open>pos\<close> for the step size, then
  for the four coefficients at \<open>pos\<close>, \<open>pos + 0.5 k1\<close>, \<open>pos + 0.5 k2\<close> and
  \<open>pos + k3\<close>. Every coefficient is scaled by the minimum cell size divided by the
  magnitude of the field at \<open>pos\<close> (by 0 when that magnitude is not positive), times
  the time step coefficient, times the sign; the kernel passes the configured time step
  for the coefficient. The step-size texture is not used, and the result depends on
  the field through its values at the four sample positions only.
\<close>

theorem advectRK4_samples_and_scale:
  "let v = (\<lambda>q. velocity e (pos_to_texcoords e q));
       hint = (if fgt (length_f2 (v p)) (Fin 0)
               then fdiv (fminf (fst (cell_size e)) (snd (cell_size e))) (length_f2 (v p))
               else Fin 0);
       h = fmul (fmul hint delta) sign;
       k1 = f2scale h (v p);
       k2 = f2scale h (v (f2add p (f2scale (Fin 0.5) k1)));
       k3 = f2scale h (v (f2add p (f2scale (Fin 0.5) k2)));
       k4 = f2scale h (v (f2add p k3))
   in advectRK4 e p delta sign =
        f2add p (f2scale (fdiv (Fin 1) (Fin 6))
                   (f2add (f2add (f2add k1 (f2scale (Fin 2) k2)) (f2scale (Fin 2) k3)) k4))
    \<and> advectRK4_reads e p delta sign =
        [p, p, f2add p (f2scale (Fin 0.5) k1), f2add p (f2scale (Fin 0.5) k2), f2add p k3]
    \<and> advect e 0 sign p st = Some (advectRK4 e p (fst (time_scale e)) sign, st)
    \<and> advectRK4 (e\<lparr>rk4_step := r\<rparr>) p delta sign = advectRK4 e p delta sign
    \<and> (\<forall>g. g (pos_to_texcoords e p) = v p
           \<and> g (pos_to_texcoords e (f2add p (f2scale (Fin 0.5) k1)))
               = v (f2add p (f2scale (Fin 0.5) k1))
           \<and> g (pos_to_texcoords e (f2add p (f2scale (Fin 0.5) k2)))
               = v (f2add p (f2scale (Fin 0.5) k2))
           \<and> g (pos_to_texcoords e (f2add p k3)) = v (f2add p k3)
         \<longrightarrow> advectRK4 (e\<lparr>velocity := g\<rparr>) p delta sign = advectRK4 e p delta sign)"
proof -
  have sc: "steps_per_cell (e\<lparr>velocity := g\<rparr>) p = steps_per_cell e p"
    if "g (pos_to_texcoords e p) = velocity e (pos_to_texcoords e p)" for g
    using that by (simp add: steps_per_cell_def)
  have hint: "(if fgt (length_f2 (velocity e (pos_to_texcoords e p))) (Fin 0)
               then fdiv (fminf (fst (cell_size e)) (snd (cell_size e)))
                      (length_f2 (velocity e (pos_to_texcoords e p)))
               else Fin 0) = steps_per_cell e p"
    by (simp add: steps_per_cell_def Let_def)
  have tc: "pos_to_texcoords (e\<lparr>rk4_step := r\<rparr>) = pos_to_texcoords e"
    by (intro ext) (simp add: pos_to_texcoords_def)
  show ?thesis
    unfolding Let_def hint
    apply (intro conjI allI impI)
        apply (simp add: advectRK4_unfold Let_def)
       apply (simp add: advectRK4_reads_def rk4_k1_def rk4_k2_def rk4_k3_def)
      apply (simp add: advect_def)
     apply (simp add: advectRK4_unfold Let_def tc)
    apply (simp add: advectRK4_unfold Let_def sc)
    done
qed

theorem advectRK4_samples_and_scale_witness:
  "advectRK4 env_uniform (Fin 0, Fin 0) (Fin 0.5) (Fin (- 1)) = (Fin (- 0.5), Fin 0)
   \<and> advectRK4 (env_uniform\<lparr>velocity := velocity_band\<rparr>) (Fin 0, Fin 0) (Fin 0.5) (Fin (- 1))
       = (Fin (- 0.5), Fin 0)"
proof -
  have v: "velocity env_uniform = (\<lambda>q. (Fin 1, Fin 0))" by (simp add: env_uniform_def)
  have c: "cell_size env_uniform = (Fin 1, Fin 1)" by (simp add: env_uniform_def)
  have a: "advectRK4 env_uniform (Fin 0, Fin 0) (Fin 0.5) (Fin (- 1)) = (Fin (- 0.5), Fin 0)"
    by (simp add: advectRK4_unfold Let_def uniform_steps v f2scale_def f2add_def)
  have b: "advectRK4 (env_uniform\<lparr>velocity := velocity_band\<rparr>) (Fin 0, Fin 0) (Fin 0.5) (Fin (- 1))
        = advectRK4 env_uniform (Fin 0, Fin 0) (Fin 0.5) (Fin (- 1))"
    using advectRK4_samples_and_scale [of env_uniform "(Fin 0, Fin 0)" "Fin 0.5" "Fin (- 1)"]
    by (simp add: Let_def v c texcoords_unit f2scale_def f2add_def velocity_band_def
        length_f2_def f2dot_def fgt_def fminf_def)
  from a b show ?thesis by simp
qed

lemma fast_diagonal: "length_f2 (Fin 3, Fin 4) = Fin 5"
proof -
  have "sqrt 25 = (5 :: real)" by (rule real_sqrt_unique) simp_all
  then show ?thesis by (simp add: length_f2_def f2dot_def)
qed

text \<open>
  Claim C5 as stated fails. In the uniform field \<open>(1, 0)\<close> over one cell of
  \<open>3 x 4\<close>, where the step-size texture holds the cell diagonal 5, with the
  configured time step 0.5 and the sign +1, the step of the source moves the particle
  by 1.5: its scale is the smaller cell side over the local speed, 3. The step scaled
  by the local step-size hint moves it by 2.5. The source reads the field five times,
  not four.
\<close>

theorem advectRK4_hint_counterexample:
  "advectRK4 env_fast (Fin 0, Fin 0) (fst (time_scale env_fast)) (Fin 1) = (Fin 1.5, Fin 0)
   \<and> spec_advectRK4 env_fast (Fin 0, Fin 0) (fst (time_scale env_fast)) (Fin 1) = (Fin 2.5, Fin 0)
   \<and> rk4_step env_fast (pos_to_texcoords env_fast (Fin 0, Fin 0)) = length_f2 (cell_size env_fast)
   \<and> length (advectRK4_reads env_fast (Fin 0, Fin 0) (fst (time_scale env_fast)) (Fin 1)) = 5"
proof -
  have t: "fst (time_scale env_fast) = Fin (1 / 2)" by (simp add: env_fast_def)
  have s: "steps_per_cell env_fast q = Fin 3" for q
    by (simp add: steps_per_cell_def length_f2_def f2dot_def fgt_def fminf_def env_fast_def)
  have "advectRK4 env_fast (Fin 0, Fin 0) (Fin (1 / 2)) (Fin 1) = (Fin 1.5, Fin 0)"
    by (simp add: advectRK4_unfold Let_def s f2scale_def f2add_def)
       (simp add: env_fast_def f2scale_def f2add_def)
  moreover have "spec_advectRK4 env_fast (Fin 0, Fin 0) (Fin (1 / 2)) (Fin 1) = (Fin 2.5, Fin 0)"
    by (simp add: spec_advectRK4_def Let_def env_fast_def f2scale_def f2add_def)
  moreover have "rk4_step env_fast (pos_to_texcoords env_fast (Fin 0, Fin 0))
                   = length_f2 (cell_size env_fast)"
    using fast_diagonal by (simp add: env_fast_def)
  ultimately show ?thesis by (simp add: t advectRK4_reads_def)
qed

subsection \<open>Failures of device calls\<close>

lemma resolution_two: "resolution_minus_1 2 = Fin 1"
  by (simp add: resolution_minus_1_def)

text \<open>
  Claim C8. The claim asks that every failed allocation or transfer raises an error.
  On a device where the upload of the constants by \<^verbatim>\<open>cudaMemcpyToSymbol\<close> fails
  and every other call succeeds, the constructor returns normally and the constants
  have not reached the device. A failed \<^verbatim>\<open>cudaMallocArray\<close> in the same constructor
  and a failed \<^verbatim>\<open>cudaMalloc\<close> in the dispatcher do raise the error.
\<close>

theorem constant_upload_failure_ignored:
  "streamlines_cuda_impl [1] (2, 2) (Fin 0, Fin 0, Fin 2, Fin 2) [] [] [] [] (Fin 0.5) (Fin 1)
     = Inr \<lparr>h_const_data = [(Fin 0, Fin 0), (Fin 0.5, Fin 0.5), (Fin (- 0.5), Fin (- 0.5)),
                             (Fin 1, Fin 1), (Fin 0.5, Fin 0.5), (Fin 1, Fin 1), (Fin 2, Fin 2)],
            h_rk4step = Fin (sqrt 8), num_convergence_points = 0, num_convergence_lines = 0,
            uploaded = [Textures 0, Textures 1]\<rparr>
   \<and> streamlines_cuda_impl [0, 1] (2, 2) (Fin 0, Fin 0, Fin 2, Fin 2) [] [] [] [] (Fin 0.5) (Fin 1)
     = Inl (runtime_error
              ''Error allocating memory using cudaMalloc3DArray for velocity or RK4 step size.'' 1)
   \<and> update_labels impl_uniform [1] two_particles 1 (Fin 1) 100
     = Some (Inl (runtime_error ''Error allocating memory using cudaMalloc for labels.'' 1))"
  by (simp add: streamlines_cuda_impl_def resolution_two fsub_def Let_def memcpy_to_symbol_def
      cuda_def initialize_texture_array_def update_labels_def)

end
